theory Spec2Isabelle
  imports Complex_Main "HOL-Library.Sublist"
begin

text \<open>
  The RFP analyzer: the structured output parser, the hierarchical chunking, the retrieval
  pipeline with its re-ranker and context enricher, and the analysis workflow, each
  translated from its Python source, with the properties the specification states of them.
  Exceptions are values: a function that can raise returns \<open>exn + 'a\<close>, with \<open>Inl\<close>
  for the exception. What the code calls and does not define (the JSON decoder, pydantic's
  conversions, the vector index, the model) is a parameter.
\<close>

section \<open>Python strings\<close>

text \<open>
  A Python \<open>str\<close> is modelled as a \<open>string\<close>; a \<open>char\<close> is read as the code point
  of the same number (0 to 255). The predicates below are Python's on these code points.
\<close>

definition py_isspace :: "char \<Rightarrow> bool" where
  \<comment> \<open>\<open>str.isspace\<close>, the class \<open>\s\<close> of \<open>re\<close> and what \<open>str.strip()\<close> removes\<close>
  "py_isspace c =
     (let n = (of_char c :: nat)
      in (9 \<le> n \<and> n \<le> 13) \<or> (28 \<le> n \<and> n \<le> 32) \<or> n = 133 \<or> n = 160)"

definition py_isdigit :: "char \<Rightarrow> bool" where
  \<comment> \<open>the class \<open>\d\<close> of \<open>re\<close>\<close>
  "py_isdigit c = (let n = (of_char c :: nat) in 48 \<le> n \<and> n \<le> 57)"

definition py_isupper_ascii :: "char \<Rightarrow> bool" where
  \<comment> \<open>the class \<open>[A-Z]\<close>\<close>
  "py_isupper_ascii c = (let n = (of_char c :: nat) in 65 \<le> n \<and> n \<le> 90)"

definition py_isword :: "char \<Rightarrow> bool" where
  \<comment> \<open>the class \<open>\w\<close> of \<open>re\<close>: \<open>str.isalnum\<close> or the underscore\<close>
  "py_isword c =
     (let n = (of_char c :: nat)
      in (48 \<le> n \<and> n \<le> 57) \<or> (65 \<le> n \<and> n \<le> 90) \<or> n = 95 \<or> (97 \<le> n \<and> n \<le> 122)
         \<or> n = 170 \<or> n = 178 \<or> n = 179 \<or> n = 181 \<or> n = 185 \<or> n = 186
         \<or> (188 \<le> n \<and> n \<le> 190) \<or> (192 \<le> n \<and> n \<le> 214) \<or> (216 \<le> n \<and> n \<le> 246)
         \<or> 248 \<le> n)"

definition lower_char :: "char \<Rightarrow> char" where
  "lower_char c =
     (let n = (of_char c :: nat)
      in if (65 \<le> n \<and> n \<le> 90) \<or> (192 \<le> n \<and> n \<le> 222 \<and> n \<noteq> 215)
         then char_of (n + 32) else c)"

definition py_lower :: "string \<Rightarrow> string" where
  \<comment> \<open>\<open>str.lower()\<close>\<close>
  "py_lower s = map lower_char s"

definition py_lstrip :: "string \<Rightarrow> string" where
  "py_lstrip s = dropWhile py_isspace s"

definition py_rstrip :: "string \<Rightarrow> string" where
  "py_rstrip s = rev (dropWhile py_isspace (rev s))"

definition py_strip :: "string \<Rightarrow> string" where
  \<comment> \<open>\<open>str.strip()\<close>\<close>
  "py_strip s = py_rstrip (py_lstrip s)"

fun py_contains :: "string \<Rightarrow> string \<Rightarrow> bool" where
  \<comment> \<open>\<open>sub in s\<close>, written \<open>py_contains s sub\<close>\<close>
  "py_contains [] sub = (sub = [])"
| "py_contains (c # s) sub = (prefix sub (c # s) \<or> py_contains s sub)"

definition py_find_char :: "char \<Rightarrow> string \<Rightarrow> int" where
  \<comment> \<open>\<open>s.find(c)\<close> for a one-character \<open>c\<close>: the first index, or -1\<close>
  "py_find_char c s =
     (if c \<in> set s then int (length (takeWhile (\<lambda>d. d \<noteq> c) s)) else - 1)"

definition py_rfind_char :: "char \<Rightarrow> string \<Rightarrow> int" where
  \<comment> \<open>\<open>s.rfind(c)\<close>: the last index, or -1\<close>
  "py_rfind_char c s =
     (if c \<in> set s
      then int (length s) - 1 - int (length (takeWhile (\<lambda>d. d \<noteq> c) (rev s)))
      else - 1)"

definition py_slice :: "string \<Rightarrow> int \<Rightarrow> int \<Rightarrow> string" where
  \<comment> \<open>\<open>s[i:j]\<close> for \<open>0 \<le> i\<close> and \<open>0 \<le> j\<close>\<close>
  "py_slice s i j = take (nat (j - i)) (drop (nat i) s)"

fun split_at_sub :: "string \<Rightarrow> string \<Rightarrow> (string \<times> string) option" where
  \<comment> \<open>the text before and the text after the first occurrence of \<open>sub\<close>\<close>
  "split_at_sub sub [] = (if sub = [] then Some ([], []) else None)"
| "split_at_sub sub (c # s) =
     (if prefix sub (c # s) then Some ([], drop (length sub) (c # s))
      else (case split_at_sub sub s of
              None \<Rightarrow> None
            | Some (before, after) \<Rightarrow> Some (c # before, after)))"

fun nat_digits :: "nat \<Rightarrow> string" where
  "nat_digits n =
     (if n < 10 then [char_of (48 + n)]
      else nat_digits (n div 10) @ [char_of (48 + n mod 10)])"

definition format_03d :: "nat \<Rightarrow> string" where
  \<comment> \<open>the format \<open>{n:03d}\<close>\<close>
  "format_03d n = (let d = nat_digits n in replicate (3 - length d) (CHR ''0'') @ d)"

section \<open>Values, exceptions and the libraries\<close>

text \<open>
  The values \<open>json.loads\<close> produces. Floats are read as real numbers, so NaN and the
  infinities are not among them.
\<close>

datatype pyval =
    PNone
  | PBool bool
  | PInt int
  | PFloat real
  | PStr string
  | PList "pyval list"
  | PDict "(string \<times> pyval) list"

datatype exn_class =
  JSONDecodeError | ValueError | TypeError | AttributeError | ValidationError
  | ZeroDivisionError | OtherError

text \<open>An exception is its class and the text \<open>str(e)\<close>; every class is an \<open>Exception\<close>.\<close>

type_synonym exn = "exn_class \<times> string"

text \<open>
  What the parser takes from Python and from its libraries and does not define itself:
  the decoder \<open>json.loads\<close>, \<open>str()\<close> of a value, the message of an exception the
  interpreter or pydantic raises on a value, and pydantic's lax conversions of a value that
  is not a number already to \<open>float\<close> and to \<open>int\<close>. The theorems hold for every such
  library.
\<close>

record library =
  json_loads :: "string \<Rightarrow> exn + pyval"
  py_str :: "pyval \<Rightarrow> string"
  py_message :: "exn_class \<Rightarrow> pyval \<Rightarrow> string"
  lax_float :: "pyval \<Rightarrow> real option"
  lax_int :: "pyval \<Rightarrow> int option"

definition dict_get :: "(string \<times> pyval) list \<Rightarrow> string \<Rightarrow> pyval \<Rightarrow> pyval" where
  \<comment> \<open>\<open>d.get(key, default)\<close> on a dict\<close>
  "dict_get d key dflt = (case map_of d key of Some v \<Rightarrow> v | None \<Rightarrow> dflt)"

definition get_method :: "library \<Rightarrow> pyval \<Rightarrow> string \<Rightarrow> pyval \<Rightarrow> exn + pyval" where
  \<comment> \<open>\<open>v.get(key, default)\<close> on any value: only a dict has the method\<close>
  "get_method lib v key dflt =
     (case v of
        PDict d \<Rightarrow> Inr (dict_get d key dflt)
      | _ \<Rightarrow> Inl (AttributeError, py_message lib AttributeError v))"

definition py_truthy :: "pyval \<Rightarrow> bool" where
  "py_truthy v =
     (case v of
        PNone \<Rightarrow> False
      | PBool b \<Rightarrow> b
      | PInt i \<Rightarrow> i \<noteq> 0
      | PFloat r \<Rightarrow> r \<noteq> 0
      | PStr s \<Rightarrow> s \<noteq> []
      | PList xs \<Rightarrow> xs \<noteq> []
      | PDict d \<Rightarrow> d \<noteq> [])"

section \<open>The response models\<close>

record ExtractedRequirement =
  requirement_id :: string
  title :: string
  description :: string
  req_section :: string
  page_number :: "int option"
  priority :: "string option"
  category :: "string option"
  related_requirements :: "string list"

record RetrievedChunk =
  chunk_id :: string
  content :: string
  relevance_score :: real
  source_document :: string
  rc_section :: "string option"
  page_numbers :: "int list"

text \<open>\<open>AnalysisResponse\<close> without its \<open>timestamp\<close>, which is the clock's.\<close>

record AnalysisResponse =
  extracted_requirements :: "ExtractedRequirement list"
  reasoning :: string
  gaps_or_conflicts :: "string list"
  confidence :: real
  uncertainties :: "string list"
  query :: string
  retrieved_chunks :: "RetrievedChunk list"
  processing_time_ms :: real

subsection \<open>Field validation\<close>

definition v_str :: "pyval \<Rightarrow> string option" where
  \<comment> \<open>a field of type \<open>str\<close>\<close>
  "v_str v = (case v of PStr s \<Rightarrow> Some s | _ \<Rightarrow> None)"

definition v_opt_str :: "pyval \<Rightarrow> string option option" where
  \<comment> \<open>a field of type \<open>str | None\<close>\<close>
  "v_opt_str v = (case v of PNone \<Rightarrow> Some None | PStr s \<Rightarrow> Some (Some s) | _ \<Rightarrow> None)"

fun v_strs :: "pyval list \<Rightarrow> string list option" where
  "v_strs [] = Some []"
| "v_strs (v # vs) =
     (case v_str v of
        None \<Rightarrow> None
      | Some s \<Rightarrow> (case v_strs vs of None \<Rightarrow> None | Some ss \<Rightarrow> Some (s # ss)))"

definition v_str_list :: "pyval \<Rightarrow> string list option" where
  \<comment> \<open>a field of type \<open>list[str]\<close>\<close>
  "v_str_list v = (case v of PList vs \<Rightarrow> v_strs vs | _ \<Rightarrow> None)"

definition v_float :: "library \<Rightarrow> pyval \<Rightarrow> real option" where
  \<comment> \<open>a field of type \<open>float\<close>\<close>
  "v_float lib v =
     (case v of PInt i \<Rightarrow> Some (of_int i) | PFloat r \<Rightarrow> Some r | _ \<Rightarrow> lax_float lib v)"

definition v_opt_int :: "library \<Rightarrow> pyval \<Rightarrow> int option option" where
  \<comment> \<open>a field of type \<open>int | None\<close>\<close>
  "v_opt_int lib v =
     (case v of
        PNone \<Rightarrow> Some None
      | PInt i \<Rightarrow> Some (Some i)
      | _ \<Rightarrow> map_option Some (lax_int lib v))"

definition ExtractedRequirement_init ::
  "library \<Rightarrow> pyval \<Rightarrow> pyval \<Rightarrow> pyval \<Rightarrow> pyval \<Rightarrow> pyval \<Rightarrow> pyval \<Rightarrow> pyval \<Rightarrow> pyval
     \<Rightarrow> exn + ExtractedRequirement" where
  \<comment> \<open>the constructor, with every keyword given\<close>
  "ExtractedRequirement_init lib rid ttl descr sect page prio cat rel =
     (case (v_str rid, v_str ttl, v_str descr, v_str sect,
            v_opt_int lib page, v_opt_str prio, v_opt_str cat, v_str_list rel) of
        (Some i, Some t, Some d, Some s, Some p, Some pr, Some c, Some r) \<Rightarrow>
          Inr \<lparr>requirement_id = i, title = t, description = d, req_section = s,
               page_number = p, priority = pr, category = c, related_requirements = r\<rparr>
      | _ \<Rightarrow> Inl (ValidationError, py_message lib ValidationError (PList [rid, ttl, descr, sect, page, prio, cat, rel])))"

definition field_or :: "'a \<Rightarrow> (pyval \<Rightarrow> 'a option) \<Rightarrow> pyval option \<Rightarrow> 'a option" where
  \<comment> \<open>a field with a default: the default when the keyword is not given\<close>
  "field_or dflt validate arg = (case arg of None \<Rightarrow> Some dflt | Some v \<Rightarrow> validate v)"

definition field_required :: "(pyval \<Rightarrow> 'a option) \<Rightarrow> pyval option \<Rightarrow> 'a option" where
  \<comment> \<open>a field declared with \<open>Field(...)\<close>: an error when the keyword is not given\<close>
  "field_required validate arg = (case arg of None \<Rightarrow> None | Some v \<Rightarrow> validate v)"

definition v_confidence :: "library \<Rightarrow> pyval \<Rightarrow> real option" where
  \<comment> \<open>\<open>confidence: float = Field(default=0.0, ge=0.0, le=100.0)\<close>\<close>
  "v_confidence lib v =
     (case v_float lib v of
        None \<Rightarrow> None
      | Some c \<Rightarrow> if 0 \<le> c \<and> c \<le> 100 then Some c else None)"

definition AnalysisResponse_init ::
  "library \<Rightarrow> ExtractedRequirement list \<Rightarrow> pyval option \<Rightarrow> pyval option \<Rightarrow> pyval option
     \<Rightarrow> pyval option \<Rightarrow> pyval option \<Rightarrow> exn + AnalysisResponse" where
  \<comment> \<open>the constructor; \<open>None\<close> is a keyword that is not given\<close>
  "AnalysisResponse_init lib reqs reasoning_arg gaps_arg confidence_arg uncertainties_arg query_arg =
     (case (field_required v_str reasoning_arg, field_or [] v_str_list gaps_arg,
            field_or 0 (v_confidence lib) confidence_arg,
            field_or [] v_str_list uncertainties_arg, field_required v_str query_arg) of
        (Some r, Some g, Some c, Some u, Some q) \<Rightarrow>
          Inr \<lparr>extracted_requirements = reqs, reasoning = r, gaps_or_conflicts = g,
               confidence = c, uncertainties = u, query = q,
               retrieved_chunks = [], processing_time_ms = 0\<rparr>
      | _ \<Rightarrow> Inl (ValidationError, py_message lib ValidationError PNone))"

section \<open>The structured output parser: extraction\<close>

text \<open>
  The three patterns of \<open>_extract_json\<close> and the four substitutions of
  \<open>_fix_and_parse_json\<close>, each written as the scan \<open>re.findall\<close> or \<open>re.sub\<close> makes
  for it, from left to right.
\<close>

lemma split_at_sub_after_le:
  "split_at_sub sub s = Some (before, after) \<Longrightarrow> length after \<le> length s"
  by (induction s arbitrary: before) (auto split: if_splits option.splits)

lemma split_at_sub_after_less:
  "split_at_sub sub s = Some (before, after) \<Longrightarrow> sub \<noteq> [] \<Longrightarrow> length after < length s"
  by (induction s arbitrary: before) (auto split: if_splits option.splits)

lemma length_py_lstrip_le: "length (py_lstrip s) \<le> length s"
  by (simp add: py_lstrip_def length_dropWhile_le)

function findall_fence :: "string \<Rightarrow> string \<Rightarrow> string list" where
  \<comment> \<open>the groups of \<open>```tag\s*([\s\S]*?)\s*```\<close>: after an opening fence and the white
      space behind it, the text up to the next fence, without its trailing white space\<close>
  "findall_fence tag s =
     (case split_at_sub (''```'' @ tag) s of
        None \<Rightarrow> []
      | Some (skipped, rest) \<Rightarrow>
          (case split_at_sub ''```'' (py_lstrip rest) of
              None \<Rightarrow> []
            | Some (body, after) \<Rightarrow> py_rstrip body # findall_fence tag after))"
  by pat_completeness auto
termination
proof (relation "measure (\<lambda>(tag, s). length s)", goal_cases)
  case 1
  show ?case by simp
next
  case (2 tag s x2 skipped rest x2a body after)
  then have r: "split_at_sub (''```'' @ tag) s = Some (skipped, rest)"
    and a: "split_at_sub ''```'' (py_lstrip rest) = Some (body, after)" by simp_all
  have "length rest < length s" using split_at_sub_after_less [OF r] by simp
  moreover have "length after \<le> length (py_lstrip rest)"
    using split_at_sub_after_le [OF a] .
  ultimately show ?case using length_py_lstrip_le [of rest] by simp
qed

definition findall_braces :: "string \<Rightarrow> string list" where
  \<comment> \<open>the matches of the greedy \<open>\{[\s\S]*\}\<close>: from the first \<open>{\<close> to the last \<open>}\<close>
      behind it, if there is one\<close>
  "findall_braces s =
     (let s' = dropWhile (\<lambda>c. c \<noteq> CHR ''{'') s
      in if CHR ''}'' \<in> set s' then [rev (dropWhile (\<lambda>c. c \<noteq> CHR ''}'') (rev s'))] else [])"

function sub_trailing_comma :: "char \<Rightarrow> string \<Rightarrow> string" where
  \<comment> \<open>\<open>re.sub(r",\s*}", "}", s)\<close>, and the same with \<open>]\<close>\<close>
  "sub_trailing_comma closer [] = []"
| "sub_trailing_comma closer (c # s) =
     (if c = CHR '','' then
        (case py_lstrip s of
           [] \<Rightarrow> c # sub_trailing_comma closer s
         | d # r \<Rightarrow> if d = closer then closer # sub_trailing_comma closer r
                    else c # sub_trailing_comma closer s)
      else c # sub_trailing_comma closer s)"
  by pat_completeness auto
termination
proof (relation "measure (\<lambda>(closer, s). length s)", goal_cases)
  case (3 closer c s d r)
  then have "length (d # r) \<le> length s" using length_py_lstrip_le [of s] by simp
  then show ?case by simp
qed simp_all

definition sub_single_quotes :: "string \<Rightarrow> string" where
  \<comment> \<open>\<open>re.sub(r"'", '"', s)\<close>\<close>
  "sub_single_quotes s = map (\<lambda>c. if c = CHR 0x27 then CHR 0x22 else c) s"

function sub_quote_keys :: "string \<Rightarrow> string" where
  \<comment> \<open>\<open>re.sub(r"(\w+):", r'"\1":', s)\<close>\<close>
  "sub_quote_keys [] = []"
| "sub_quote_keys (c # s) =
     (if py_isword c then
        (case dropWhile py_isword s of
           [] \<Rightarrow> c # sub_quote_keys s
         | d # r \<Rightarrow> if d = CHR '':''
                    then [CHR 0x22] @ c # takeWhile py_isword s @ [CHR 0x22, CHR '':'']
                         @ sub_quote_keys r
                    else c # sub_quote_keys s)
      else c # sub_quote_keys s)"
  by pat_completeness auto
termination
proof (relation "measure length", goal_cases)
  case (3 c s d r)
  then have "length (d # r) \<le> length s" using length_dropWhile_le [of py_isword s] by simp
  then show ?case by simp
qed simp_all

definition apply_fixes :: "string \<Rightarrow> string" where
  \<comment> \<open>the loop over \<open>fixes\<close>, in its order\<close>
  "apply_fixes json_str =
     sub_quote_keys (sub_single_quotes
       (sub_trailing_comma (CHR '']'') (sub_trailing_comma (CHR ''}'') json_str)))"

definition synthesized :: "string \<Rightarrow> pyval" where
  \<comment> \<open>the minimal structure \<open>_fix_and_parse_json\<close> returns when the repair fails\<close>
  "synthesized text =
     PDict [(''extracted_requirements'', PList []), (''reasoning'', PStr text),
            (''confidence'', PInt 30)]"

definition fix_and_parse_json :: "library \<Rightarrow> string \<Rightarrow> exn + pyval" where
  "fix_and_parse_json lib text =
     (let start = py_find_char (CHR ''{'') text;
          end_ix = py_rfind_char (CHR ''}'') text
      in if start = - 1 \<or> end_ix = - 1
         then Inl (ValueError, ''No JSON object found in text'')
         else (case json_loads lib (apply_fixes (py_slice text start (end_ix + 1))) of
                 Inr v \<Rightarrow> Inr v
               | Inl (cls, msg) \<Rightarrow>
                   if cls = JSONDecodeError then Inr (synthesized text) else Inl (cls, msg)))"

definition json_candidates :: "string \<Rightarrow> string list" where
  \<comment> \<open>the matches of the three patterns, in the order the loops visit them\<close>
  "json_candidates text =
     findall_fence ''json'' text @ findall_fence [] text @ findall_braces text"

fun try_candidates :: "library \<Rightarrow> string list \<Rightarrow> (exn + pyval) option" where
  \<comment> \<open>the loop over the matches: \<open>None\<close> when it ends without returning\<close>
  "try_candidates lib [] = None"
| "try_candidates lib (m # ms) =
     (let cleaned = py_strip m
      in if \<not> prefix ''{'' cleaned then try_candidates lib ms
         else (case json_loads lib cleaned of
                 Inr v \<Rightarrow> Some (Inr v)
               | Inl (cls, msg) \<Rightarrow>
                   if cls = JSONDecodeError then try_candidates lib ms
                   else Some (Inl (cls, msg))))"

definition extract_json :: "library \<Rightarrow> string \<Rightarrow> exn + pyval" where
  "extract_json lib text =
     (case json_loads lib text of
        Inr v \<Rightarrow> Inr v
      | Inl (cls, msg) \<Rightarrow>
          if cls \<noteq> JSONDecodeError then Inl (cls, msg)
          else (case try_candidates lib (json_candidates text) of
                  Some result \<Rightarrow> result
                | None \<Rightarrow> fix_and_parse_json lib text))"

section \<open>The structured output parser: priorities\<close>

definition priority_map :: "(string \<times> string) list" where
  "priority_map =
     [(''high'', ''high''), (''critical'', ''high''), (''mandatory'', ''high''),
      (''medium'', ''medium''), (''moderate'', ''medium''), (''normal'', ''medium''),
      (''low'', ''low''), (''optional'', ''low''), (''nice-to-have'', ''low'')]"

definition normalize_priority :: "string option \<Rightarrow> string option" where
  \<comment> \<open>\<open>StructuredOutputParser._normalize_priority\<close> on \<open>str | None\<close>\<close>
  "normalize_priority priority_arg =
     (case priority_arg of
        None \<Rightarrow> None
      | Some p \<Rightarrow>
          if p = [] then None
          else (let priority_lower = py_strip (py_lower p)
                in case map_of priority_map priority_lower of
                     Some v \<Rightarrow> Some v
                   | None \<Rightarrow> Some priority_lower))"


section \<open>The structured output parser: requirements and the response\<close>

definition req_id :: "nat \<Rightarrow> string" where
  \<comment> \<open>\<open>f"REQ-{idx + 1:03d}"\<close>\<close>
  "req_id idx = ''REQ-'' @ format_03d (idx + 1)"

definition py_iter :: "library \<Rightarrow> pyval \<Rightarrow> exn + pyval list" where
  \<comment> \<open>what \<open>enumerate\<close> iterates over: the items of a list, the characters of a string,
      the keys of a dict; the other values are not iterable\<close>
  "py_iter lib v =
     (case v of
        PList xs \<Rightarrow> Inr xs
      | PStr s \<Rightarrow> Inr (map (\<lambda>c. PStr [c]) s)
      | PDict d \<Rightarrow> Inr (map (\<lambda>kv. PStr (fst kv)) d)
      | _ \<Rightarrow> Inl (TypeError, py_message lib TypeError v))"

definition slice_100 :: "library \<Rightarrow> pyval \<Rightarrow> exn + pyval" where
  \<comment> \<open>\<open>v[:100]\<close>: strings and lists can be sliced; the other values raise an
      exception that is no \<open>ValidationError\<close>, written \<open>TypeError\<close> here\<close>
  "slice_100 lib v =
     (case v of
        PStr s \<Rightarrow> Inr (PStr (take 100 s))
      | PList xs \<Rightarrow> Inr (PList (take 100 xs))
      | _ \<Rightarrow> Inl (TypeError, py_message lib TypeError v))"

definition normalize_priority_value :: "library \<Rightarrow> pyval \<Rightarrow> exn + pyval" where
  \<comment> \<open>\<open>_normalize_priority\<close> on whatever value the object holds: a value that is true
      and not a string has no \<open>lower\<close>\<close>
  "normalize_priority_value lib v =
     (if \<not> py_truthy v then Inr PNone
      else (case v of
              PStr s \<Rightarrow> Inr (case normalize_priority (Some s) of
                                None \<Rightarrow> PNone | Some p \<Rightarrow> PStr p)
            | _ \<Rightarrow> Inl (AttributeError, py_message lib AttributeError v)))"

definition skip_invalid :: "exn + 'a \<Rightarrow> exn + 'a option" where
  \<comment> \<open>\<open>except ValidationError: continue\<close>\<close>
  "skip_invalid r =
     (case r of
        Inr x \<Rightarrow> Inr (Some x)
      | Inl (cls, msg) \<Rightarrow> if cls = ValidationError then Inr None else Inl (cls, msg))"

definition parse_requirement :: "library \<Rightarrow> nat \<Rightarrow> pyval \<Rightarrow> exn + ExtractedRequirement option" where
  \<comment> \<open>the body of the loop of \<open>_parse_requirements\<close>; \<open>None\<close> is an item that is skipped\<close>
  "parse_requirement lib idx req_data =
     (case req_data of
        PStr s \<Rightarrow>
          skip_invalid (ExtractedRequirement_init lib (PStr (req_id idx))
            (PStr (if length s > 100 then take 100 s else s)) (PStr s)
            (PStr ''Extracted from document'') PNone PNone PNone (PList []))
      | PDict d \<Rightarrow>
          (case slice_100 lib (dict_get d ''description'' (PStr ''Untitled Requirement'')) of
             Inl e \<Rightarrow> Inl e
           | Inr title_default \<Rightarrow>
               (case normalize_priority_value lib (dict_get d ''priority'' PNone) of
                  Inl e \<Rightarrow> Inl e
                | Inr prio \<Rightarrow>
                    skip_invalid (ExtractedRequirement_init lib
                      (dict_get d ''requirement_id'' (PStr (req_id idx)))
                      (dict_get d ''title'' title_default)
                      (dict_get d ''description'' (PStr (py_str lib req_data)))
                      (dict_get d ''section'' (PStr ''Unknown''))
                      (dict_get d ''page_number'' PNone)
                      prio
                      (dict_get d ''category'' PNone)
                      (dict_get d ''related_requirements'' (PList [])))))
      | _ \<Rightarrow>
          skip_invalid (ExtractedRequirement_init lib (PStr (req_id idx))
            (PStr (take 100 (py_str lib req_data))) (PStr (py_str lib req_data))
            (PStr ''Extracted from document'') PNone PNone PNone (PList [])))"

fun parse_requirements_from :: "library \<Rightarrow> nat \<Rightarrow> pyval list \<Rightarrow> exn + ExtractedRequirement list" where
  "parse_requirements_from lib idx [] = Inr []"
| "parse_requirements_from lib idx (req_data # rest) =
     (case parse_requirement lib idx req_data of
        Inl e \<Rightarrow> Inl e
      | Inr r \<Rightarrow>
          (case parse_requirements_from lib (Suc idx) rest of
             Inl e \<Rightarrow> Inl e
           | Inr rs \<Rightarrow> Inr (case r of None \<Rightarrow> rs | Some req \<Rightarrow> req # rs)))"

definition parse_requirements :: "library \<Rightarrow> pyval \<Rightarrow> exn + ExtractedRequirement list" where
  "parse_requirements lib requirements_data =
     (case py_iter lib requirements_data of
        Inl e \<Rightarrow> Inl e
      | Inr items \<Rightarrow> parse_requirements_from lib 0 items)"

definition parse_attempt :: "library \<Rightarrow> string \<Rightarrow> string \<Rightarrow> exn + AnalysisResponse" where
  \<comment> \<open>the \<open>try\<close> block of \<open>parse\<close>\<close>
  "parse_attempt lib llm_output query_arg =
     (case extract_json lib llm_output of
        Inl e \<Rightarrow> Inl e
      | Inr json_data \<Rightarrow>
          (case get_method lib json_data ''extracted_requirements'' (PList []) of
             Inl e \<Rightarrow> Inl e
           | Inr requirements_data \<Rightarrow>
               (case parse_requirements lib requirements_data of
                  Inl e \<Rightarrow> Inl e
                | Inr requirements \<Rightarrow>
                    (case json_data of
                       PDict d \<Rightarrow>
                         AnalysisResponse_init lib requirements
                           (Some (dict_get d ''reasoning'' (PStr [])))
                           (Some (dict_get d ''gaps_or_conflicts'' (PList [])))
                           (Some (dict_get d ''confidence'' (PInt 50)))
                           (Some (dict_get d ''uncertainties'' (PList [])))
                           (Some (PStr query_arg))
                     | _ \<Rightarrow> Inl (AttributeError, py_message lib AttributeError json_data)))))"

definition failure_reasoning :: "string \<Rightarrow> string \<Rightarrow> string" where
  \<comment> \<open>\<open>f"Failed to parse response: {str(e)}. Raw output: {llm_output[:500]}"\<close>\<close>
  "failure_reasoning msg llm_output =
     ''Failed to parse response: '' @ msg @ ''. Raw output: '' @ take 500 llm_output"

definition parse :: "library \<Rightarrow> string \<Rightarrow> string \<Rightarrow> exn + AnalysisResponse" where
  \<comment> \<open>\<open>StructuredOutputParser.parse\<close>; \<open>Inl\<close> would be an exception that leaves it\<close>
  "parse lib llm_output query_arg =
     (case parse_attempt lib llm_output query_arg of
        Inr response \<Rightarrow> Inr response
      | Inl (cls, msg) \<Rightarrow>
          AnalysisResponse_init lib [] (Some (PStr (failure_reasoning msg llm_output))) None
            (Some (PInt 0)) None (Some (PStr query_arg)))"

text \<open>
  A library for the examples: its decoder reads the text \<open>{}\<close> as the empty object, as
  \<open>json.loads\<close> does, and rejects every other text; the examples pass it only texts
  that are not JSON. Its conversions accept nothing and its messages are empty.
\<close>

definition example_library :: library where
  "example_library =
     \<lparr>json_loads = (\<lambda>s. if s = ''{}'' then Inr (PDict [])
                          else Inl (JSONDecodeError, ''Expecting value'')),
      py_str = (\<lambda>v. []),
      py_message = (\<lambda>cls v. []),
      lax_float = (\<lambda>v. None),
      lax_int = (\<lambda>v. None)\<rparr>"


definition decode_fails :: "library \<Rightarrow> string \<Rightarrow> bool" where
  \<comment> \<open>\<open>json.loads(s)\<close> raises \<open>JSONDecodeError\<close>\<close>
  "decode_fails lib s =
     (case json_loads lib s of Inl (cls, msg) \<Rightarrow> cls = JSONDecodeError | Inr v \<Rightarrow> False)"

definition repair_input :: "string \<Rightarrow> string" where
  \<comment> \<open>the text \<open>_fix_and_parse_json\<close> gives to the decoder\<close>
  "repair_input llm_output =
     apply_fixes (py_slice llm_output (py_find_char (CHR ''{'') llm_output)
                   (py_rfind_char (CHR ''}'') llm_output + 1))"

section \<open>Hierarchical chunking\<close>

function collapse_whitespace :: "string \<Rightarrow> string" where
  \<comment> \<open>\<open>re.sub(r"\s+", " ", text)\<close>\<close>
  "collapse_whitespace [] = []"
| "collapse_whitespace (c # s) =
     (if py_isspace c then CHR '' '' # collapse_whitespace (dropWhile py_isspace s)
      else c # collapse_whitespace s)"
  by pat_completeness auto
termination
proof (relation "measure length", goal_cases)
  case (2 c s)
  then show ?case using length_dropWhile_le [of py_isspace s] by simp
qed simp_all

function remove_page_markers :: "string \<Rightarrow> string" where
  \<comment> \<open>\<open>re.sub(r"\[Page \d+\]", "", text)\<close>\<close>
  "remove_page_markers [] = []"
| "remove_page_markers (c # s) =
     (if prefix ''[Page '' (c # s) \<and> takeWhile py_isdigit (drop 5 s) \<noteq> []
         \<and> prefix '']'' (dropWhile py_isdigit (drop 5 s))
      then remove_page_markers (tl (dropWhile py_isdigit (drop 5 s)))
      else c # remove_page_markers s)"
  by pat_completeness auto
termination
proof (relation "measure length", goal_cases)
  case (2 c s)
  have "length (dropWhile py_isdigit (drop 5 s)) \<le> length (drop 5 s)"
    by (rule length_dropWhile_le)
  then show ?case by simp
qed simp_all

definition clean_text :: "string \<Rightarrow> string" where
  \<comment> \<open>\<open>ChunkingStrategy._clean_text\<close>\<close>
  "clean_text s = py_strip (remove_page_markers (collapse_whitespace s))"

fun split_lines :: "string \<Rightarrow> string list" where
  \<comment> \<open>\<open>text.split("\n")\<close>\<close>
  "split_lines [] = [[]]"
| "split_lines (c # s) =
     (if c = CHR 0x0A then [] # split_lines s
      else (case split_lines s of [] \<Rightarrow> [[c]] | l # ls \<Rightarrow> (c # l) # ls))"

fun split_on :: "char \<Rightarrow> string \<Rightarrow> string list" where
  \<comment> \<open>\<open>s.split(sep)\<close> for a one-character separator\<close>
  "split_on sep [] = [[]]"
| "split_on sep (c # s) =
     (if c = sep then [] # split_on sep s
      else (case split_on sep s of [] \<Rightarrow> [[c]] | l # ls \<Rightarrow> (c # l) # ls))"

fun join_with :: "string \<Rightarrow> string list \<Rightarrow> string" where
  \<comment> \<open>\<open>sep.join(xs)\<close>\<close>
  "join_with sep [] = []"
| "join_with sep [x] = x"
| "join_with sep (x # y # ys) = x @ sep @ join_with sep (y # ys)"

function dotted_tail :: "string \<Rightarrow> string" where
  \<comment> \<open>the longest match of \<open>(?:\.\d+)*\<close> at the start\<close>
  "dotted_tail [] = []"
| "dotted_tail [c] = []"
| "dotted_tail (c # d # r) =
     (if c = CHR ''.'' \<and> py_isdigit d
      then c # d # takeWhile py_isdigit r @ dotted_tail (dropWhile py_isdigit r)
      else [])"
  by pat_completeness auto
termination
proof (relation "measure length", goal_cases)
  case (2 c d r)
  then show ?case using length_dropWhile_le [of py_isdigit r] by simp
qed simp_all

definition dotted_numeral :: "string \<Rightarrow> string" where
  \<comment> \<open>the longest match of \<open>\d+(?:\.\d+)*\<close> at the start, empty when there is none\<close>
  "dotted_numeral s =
     (if takeWhile py_isdigit s = [] then []
      else takeWhile py_isdigit s @ dotted_tail (dropWhile py_isdigit s))"

definition strip_keyword :: "string list \<Rightarrow> string \<Rightarrow> string option" where
  "strip_keyword keywords s =
     (case filter (\<lambda>k. prefix k s) keywords of
        [] \<Rightarrow> None
      | k # ks \<Rightarrow> Some (drop (length k) s))"

definition match_pattern_1 :: "string \<Rightarrow> string option" where
  \<comment> \<open>\<open>^(?:SECTION|Section|CHAPTER|Chapter)\s*(\d+(?:\.\d+)*)\<close>\<close>
  "match_pattern_1 s =
     (case strip_keyword [''SECTION'', ''Section'', ''CHAPTER'', ''Chapter''] s of
        None \<Rightarrow> None
      | Some rest \<Rightarrow>
          (let number = dotted_numeral (dropWhile py_isspace rest)
           in if number = [] then None else Some number))"

definition match_pattern_2 :: "string \<Rightarrow> string option" where
  \<comment> \<open>\<open>^(\d+(?:\.\d+)*)\s+[A-Z]\<close>\<close>
  "match_pattern_2 s =
     (let number = dotted_numeral s; rest = drop (length number) s
      in if number \<noteq> [] \<and> takeWhile py_isspace rest \<noteq> []
            \<and> (case dropWhile py_isspace rest of [] \<Rightarrow> False | c # r \<Rightarrow> py_isupper_ascii c)
         then Some number else None)"

definition match_pattern_3 :: "string \<Rightarrow> string option" where
  \<comment> \<open>\<open>^(?:ARTICLE|Article)\s+(\d+)\<close>\<close>
  "match_pattern_3 s =
     (case strip_keyword [''ARTICLE'', ''Article''] s of
        None \<Rightarrow> None
      | Some rest \<Rightarrow>
          (let number = takeWhile py_isdigit (dropWhile py_isspace rest)
           in if takeWhile py_isspace rest \<noteq> [] \<and> number \<noteq> [] then Some number else None))"

definition match_section :: "string \<Rightarrow> (string \<times> string) option" where
  \<comment> \<open>\<open>_match_section\<close>: the number and the title of a header line\<close>
  "match_section line =
     (let line' = py_strip line
      in case match_pattern_1 line' of
           Some number \<Rightarrow> Some (number, line')
         | None \<Rightarrow>
             (case match_pattern_2 line' of
                Some number \<Rightarrow> Some (number, line')
              | None \<Rightarrow>
                  (case match_pattern_3 line' of
                     Some number \<Rightarrow> Some (number, line')
                   | None \<Rightarrow> None)))"

definition build_hierarchy :: "string \<Rightarrow> string list" where
  \<comment> \<open>\<open>_build_hierarchy\<close>\<close>
  "build_hierarchy section_number =
     (if section_number = [] then []
      else (let parts = split_on (CHR ''.'') section_number
            in map (\<lambda>i. join_with ''.'' (take (i + 1) parts)) [0..<length parts]))"

record doc_section =
  sec_title :: string
  sec_number :: string
  sec_content :: string
  sec_hierarchy :: "string list"

record section_header =
  hdr_title :: string
  hdr_number :: string
  hdr_hierarchy :: "string list"

definition close_section :: "section_header \<Rightarrow> string list \<Rightarrow> doc_section list" where
  "close_section cur body =
     (if body = [] then []
      else [\<lparr>sec_title = hdr_title cur, sec_number = hdr_number cur,
             sec_content = join_with '' '' body, sec_hierarchy = hdr_hierarchy cur\<rparr>])"

text \<open>
  The loop of \<open>_identify_sections\<close>: the header of the current section, the lines
  of its body so far, and the lines still to read.
\<close>

fun identify_from :: "section_header \<Rightarrow> string list \<Rightarrow> string list \<Rightarrow> doc_section list" where
  "identify_from cur body [] = close_section cur body"
| "identify_from cur body (line # rest) =
     (case match_section line of
        Some (number, ttl) \<Rightarrow>
          close_section cur body @
          identify_from \<lparr>hdr_title = ttl, hdr_number = number,
                          hdr_hierarchy = build_hierarchy number\<rparr> [] rest
      | None \<Rightarrow> identify_from cur (body @ [line]) rest)"

definition identify_sections :: "string \<Rightarrow> doc_section list" where
  "identify_sections s =
     identify_from \<lparr>hdr_title = ''Introduction'', hdr_number = ''0'', hdr_hierarchy = []\<rparr> []
       (split_lines s)"

text \<open>The text of the scenario: five lines, separated by line feeds.\<close>

definition scenario_text :: string where
  "scenario_text = ''1. Intro'' @ [CHR 0x0A] @ ''foo'' @ [CHR 0x0A] @ ''2. Req'' @ [CHR 0x0A]
     @ ''2.1 Security'' @ [CHR 0x0A] @ ''bar''"


text \<open>
  A chunk: its content, the caller's metadata, and the title, number and hierarchy of its
  section. The splitter is \<open>RecursiveCharacterTextSplitter\<close>, a parameter.
\<close>

record 'm text_chunk =
  tc_content :: string
  tc_base :: "'m option"
  tc_section :: "(string \<times> string \<times> string list) option"

definition chunk_section ::
  "nat \<Rightarrow> (string \<Rightarrow> string list) \<Rightarrow> doc_section \<Rightarrow> 'm option \<Rightarrow> 'm text_chunk list" where
  "chunk_section chunk_size splitter sec base_metadata =
     (let body = sec_content sec;
          section_metadata = Some (sec_title sec, sec_number sec, sec_hierarchy sec)
      in if body = [] \<or> length body < 50 then []
         else if length body \<le> chunk_size
         then [\<lparr>tc_content = body, tc_base = base_metadata, tc_section = section_metadata\<rparr>]
         else map (\<lambda>piece. \<lparr>tc_content = piece, tc_base = base_metadata,
                               tc_section = section_metadata\<rparr>) (splitter body))"

definition fallback_split :: "(string \<Rightarrow> string list) \<Rightarrow> string \<Rightarrow> 'm option \<Rightarrow> 'm text_chunk list" where
  "fallback_split splitter s base_metadata =
     map (\<lambda>piece. \<lparr>tc_content = piece, tc_base = base_metadata, tc_section = None\<rparr>)
       (splitter s)"

definition hierarchical_split ::
  "nat \<Rightarrow> (string \<Rightarrow> string list) \<Rightarrow> string \<Rightarrow> 'm option \<Rightarrow> 'm text_chunk list" where
  "hierarchical_split chunk_size splitter s base_metadata =
     (let cleaned_text = clean_text s;
          sections = identify_sections cleaned_text
      in if sections = [] then fallback_split splitter cleaned_text base_metadata
         else concat (map (\<lambda>sec. chunk_section chunk_size splitter sec base_metadata) sections))"

section \<open>Retrieval\<close>

text \<open>
  A LangChain \<open>Document\<close>: its text and its metadata, which the store keeps as
  strings.
\<close>

record Document =
  page_content :: string
  metadata :: "(string \<times> string) list"

definition meta_get :: "Document \<Rightarrow> string \<Rightarrow> string option" where
  \<comment> \<open>\<open>doc.metadata.get(key)\<close>\<close>
  "meta_get doc key = map_of (metadata doc) key"

definition meta_get_or :: "Document \<Rightarrow> string \<Rightarrow> string \<Rightarrow> string" where
  \<comment> \<open>\<open>doc.metadata.get(key, default)\<close>\<close>
  "meta_get_or doc key dflt = (case meta_get doc key of Some v \<Rightarrow> v | None \<Rightarrow> dflt)"

text \<open>A document with its score (or, from the index, with its distance).\<close>

type_synonym scored = "Document \<times> real"

text \<open>
  What the retrieval takes from outside: the query of the vector index, which returns
  documents with distances or raises; the model call of the re-ranker; Python's \<open>float()\<close>
  and \<open>int()\<close> on a string (\<open>None\<close> is \<open>ValueError\<close>); the matches of the three
  cross-reference patterns in a text; the order in which a set of strings is listed; and the
  messages of the exceptions raised on the way.

  What \<open>float()\<close> returns is a \<open>pyfloat\<close>: a number, an infinity or NaN, as for the
  replies \<open>inf\<close> and \<open>nan\<close>. Comparisons with NaN are false, and \<open>max(a, b)\<close> and
  \<open>min(a, b)\<close> keep their first argument unless the second is greater, or smaller.
\<close>

datatype pyfloat = Finite real | PosInf | NegInf | NaN

fun py_lt :: "pyfloat \<Rightarrow> pyfloat \<Rightarrow> bool" where
  \<comment> \<open>\<open>a < b\<close> on floats\<close>
  "py_lt (Finite a) (Finite b) = (a < b)"
| "py_lt (Finite a) PosInf = True"
| "py_lt NegInf (Finite b) = True"
| "py_lt NegInf PosInf = True"
| "py_lt a b = False"

definition py_max :: "pyfloat \<Rightarrow> pyfloat \<Rightarrow> pyfloat" where
  \<comment> \<open>\<open>max(a, b)\<close>\<close>
  "py_max a b = (if py_lt a b then b else a)"

definition py_min :: "pyfloat \<Rightarrow> pyfloat \<Rightarrow> pyfloat" where
  \<comment> \<open>\<open>min(a, b)\<close>\<close>
  "py_min a b = (if py_lt b a then b else a)"

definition float_value :: "pyfloat \<Rightarrow> real" where
  \<comment> \<open>the number a finite float is; the scores it is applied to are finite\<close>
  "float_value x = (case x of Finite r \<Rightarrow> r | PosInf \<Rightarrow> 0 | NegInf \<Rightarrow> 0 | NaN \<Rightarrow> 0)"

record services =
  index_query :: "string \<Rightarrow> nat \<Rightarrow> (string \<times> string) option \<Rightarrow> exn + scored list"
  llm_invoke :: "string \<Rightarrow> exn + string"
  py_float :: "string \<Rightarrow> pyfloat option"
  py_int :: "string \<Rightarrow> int option"
  findall_cross_refs :: "string \<Rightarrow> string list"
  set_order :: "string list \<Rightarrow> string list"
  raised_message :: "exn_class \<Rightarrow> string"

fun normalize_scores :: "services \<Rightarrow> scored list \<Rightarrow> exn + scored list" where
  \<comment> \<open>the loop of \<open>similarity_search\<close>: \<open>similarity = 1 / (1 + distance)\<close>\<close>
  "normalize_scores env [] = Inr []"
| "normalize_scores env ((doc, distance) # rest) =
     (if 1 + distance = 0 then Inl (ZeroDivisionError, raised_message env ZeroDivisionError)
      else (case normalize_scores env rest of
              Inl e \<Rightarrow> Inl e
            | Inr rs \<Rightarrow> Inr ((doc, 1 / (1 + distance)) # rs)))"

definition similarity_search ::
  "services \<Rightarrow> string \<Rightarrow> nat \<Rightarrow> (string \<times> string) option \<Rightarrow> real option \<Rightarrow> exn + scored list" where
  \<comment> \<open>\<open>ChromaVectorStore.similarity_search\<close>\<close>
  "similarity_search env q k filter_dict score_threshold =
     (case index_query env q k filter_dict of
        Inl e \<Rightarrow> Inl e
      | Inr results \<Rightarrow>
          (case normalize_scores env results of
             Inl e \<Rightarrow> Inl e
           | Inr normalized_results \<Rightarrow>
               (case score_threshold of
                  None \<Rightarrow> Inr normalized_results
                | Some t \<Rightarrow> Inr (filter (\<lambda>(doc, score). score \<ge> t) normalized_results))))"

definition search_by_project :: "services \<Rightarrow> string \<Rightarrow> string \<Rightarrow> nat \<Rightarrow> exn + scored list" where
  \<comment> \<open>\<open>ChromaVectorStore.search_by_project\<close>: no threshold is passed on\<close>
  "search_by_project env q project_name k =
     similarity_search env q k (Some (''project_name'', project_name)) None"

record pipeline =
  top_k :: nat
  similarity_threshold :: real
  use_llm_reranking :: bool

definition str_truthy :: "string option \<Rightarrow> bool" where
  \<comment> \<open>the truth value of a \<open>str | None\<close>\<close>
  "str_truthy s = (case s of None \<Rightarrow> False | Some v \<Rightarrow> v \<noteq> [])"

definition initial_retrieval ::
  "services \<Rightarrow> pipeline \<Rightarrow> string \<Rightarrow> string option \<Rightarrow> nat \<Rightarrow> exn + scored list" where
  \<comment> \<open>\<open>RetrievalPipeline._initial_retrieval\<close>\<close>
  "initial_retrieval env pl q project_name k =
     (if str_truthy project_name then search_by_project env q (the project_name) k
      else similarity_search env q k None (Some (similarity_threshold pl)))"

fun filter_by_section :: "string \<Rightarrow> scored list \<Rightarrow> scored list \<Rightarrow> scored list" where
  \<comment> \<open>the loop of \<open>_apply_filters\<close>, with the list \<open>filtered\<close> built so far\<close>
  "filter_by_section section_lower filtered [] = filtered"
| "filter_by_section section_lower filtered ((doc, score) # rest) =
     (let section_title = py_lower (meta_get_or doc ''section_title'' []);
          section_hierarchy = py_lower (meta_get_or doc ''section_hierarchy'' [])
      in if py_contains section_title section_lower \<or> py_contains section_hierarchy section_lower
         then filter_by_section section_lower (filtered @ [(doc, score)]) rest
         else filter_by_section section_lower filtered rest)"

definition apply_filters :: "scored list \<Rightarrow> string option \<Rightarrow> scored list" where
  \<comment> \<open>\<open>RetrievalPipeline._apply_filters\<close>\<close>
  "apply_filters documents section_filter =
     (if \<not> str_truthy section_filter then documents
      else (let filtered = filter_by_section (py_lower (the section_filter)) [] documents
            in if filtered \<noteq> [] then filtered else documents))"

definition py_take :: "int \<Rightarrow> 'a list \<Rightarrow> 'a list" where
  \<comment> \<open>the slice \<open>xs[:n]\<close>; a negative \<open>n\<close> counts from the end\<close>
  "py_take n xs = (if 0 \<le> n then take (nat n) xs else take (length xs - nat (- n)) xs)"

definition sort_descending :: "scored list \<Rightarrow> scored list" where
  \<comment> \<open>\<open>xs.sort(key=lambda x: x[1], reverse=True)\<close>, which is stable\<close>
  "sort_descending xs = sort_key (\<lambda>x. - snd x) xs"

definition truncate_top_k :: "int option \<Rightarrow> scored list \<Rightarrow> scored list" where
  \<comment> \<open>\<open>if top_k: reranked = reranked[:top_k]\<close>\<close>
  "truncate_top_k k xs = (case k of None \<Rightarrow> xs | Some n \<Rightarrow> if n = 0 then xs else py_take n xs)"

definition rerank_prompt :: "string \<Rightarrow> string \<Rightarrow> string" where
  \<comment> \<open>\<open>RERANK_PROMPT.format(query=..., document=...)\<close>\<close>
  "rerank_prompt q document =
     ''You are a document relevance scorer. Given a query and a document, '' @ [CHR 0x0A] @
     ''score how relevant the document is to the query on a scale of 0-100.'' @ [CHR 0x0A, CHR 0x0A] @
     ''Query: '' @ q @ [CHR 0x0A, CHR 0x0A] @
     ''Document:'' @ [CHR 0x0A] @ document @ [CHR 0x0A, CHR 0x0A] @
     ''Respond with ONLY a number between 0 and 100, where:'' @ [CHR 0x0A] @
     ''- 0-20: Not relevant'' @ [CHR 0x0A] @
     ''- 21-40: Slightly relevant'' @ [CHR 0x0A] @
     ''- 41-60: Moderately relevant'' @ [CHR 0x0A] @
     ''- 61-80: Highly relevant'' @ [CHR 0x0A] @
     ''- 81-100: Extremely relevant'' @ [CHR 0x0A, CHR 0x0A] @
     ''Score:''"

definition reply_score :: "services \<Rightarrow> string \<Rightarrow> pyfloat" where
  \<comment> \<open>what \<open>_score_document\<close> returns for a reply of the model:
      \<open>min(100, max(0, float(reply.strip())))\<close>, or 50.0 when \<open>float\<close> raises\<close>
  "reply_score env reply =
     (case py_float env (py_strip reply) of
        None \<Rightarrow> Finite 50
      | Some score \<Rightarrow> py_min (Finite 100) (py_max (Finite 0) score))"

definition score_document :: "services \<Rightarrow> string \<Rightarrow> Document \<Rightarrow> exn + real" where
  \<comment> \<open>\<open>ReRanker._score_document\<close>: only \<open>ValueError\<close> and \<open>TypeError\<close> are caught\<close>
  "score_document env q document =
     (case llm_invoke env (rerank_prompt q (take 2000 (page_content document))) of
        Inl (cls, msg) \<Rightarrow> if cls = ValueError \<or> cls = TypeError then Inr 50 else Inl (cls, msg)
      | Inr reply \<Rightarrow> Inr (float_value (reply_score env reply)))"

fun score_all :: "services \<Rightarrow> string \<Rightarrow> scored list \<Rightarrow> exn + scored list" where
  "score_all env q [] = Inr []"
| "score_all env q ((doc, initial_score) # rest) =
     (case score_document env q doc of
        Inl e \<Rightarrow> Inl e
      | Inr new_score \<Rightarrow>
          (case score_all env q rest of
             Inl e \<Rightarrow> Inl e
           | Inr rs \<Rightarrow> Inr ((doc, initial_score * 0.3 + new_score / 100 * 0.7) # rs)))"

definition rerank :: "services \<Rightarrow> string \<Rightarrow> scored list \<Rightarrow> int option \<Rightarrow> exn + scored list" where
  \<comment> \<open>\<open>ReRanker.rerank\<close>\<close>
  "rerank env q documents k =
     (if documents = [] then Inr []
      else (case score_all env q documents of
              Inl e \<Rightarrow> Inl e
            | Inr reranked \<Rightarrow> Inr (truncate_top_k k (sort_descending reranked))))"





function py_split_ws :: "string \<Rightarrow> string list" where
  \<comment> \<open>\<open>s.split()\<close>\<close>
  "py_split_ws s =
     (case dropWhile py_isspace s of
        [] \<Rightarrow> []
      | c # r \<Rightarrow> (c # takeWhile (\<lambda>x. \<not> py_isspace x) r)
                 # py_split_ws (dropWhile (\<lambda>x. \<not> py_isspace x) r))"
  by pat_completeness auto
termination
proof (relation "measure length", goal_cases)
  case (2 s c r)
  have "length (c # r) \<le> length s" using length_dropWhile_le [of py_isspace s] 2 by simp
  moreover have "length (dropWhile (\<lambda>x. \<not> py_isspace x) r) \<le> length r"
    by (rule length_dropWhile_le)
  ultimately show ?case by simp
qed simp_all

definition term_overlap :: "string \<Rightarrow> string \<Rightarrow> real" where
  "term_overlap q document =
     (let query_terms = remdups (py_split_ws (py_lower q));
          doc_terms = py_split_ws (py_lower document)
      in if query_terms = [] then 0
         else real (length (filter (\<lambda>w. w \<in> set doc_terms) query_terms))
              / real (length query_terms))"

definition simple_rerank :: "string \<Rightarrow> scored list \<Rightarrow> int option \<Rightarrow> scored list" where
  \<comment> \<open>\<open>SimpleReRanker.rerank\<close>\<close>
  "simple_rerank q documents k =
     truncate_top_k k (sort_descending
       (map (\<lambda>(doc, initial_score).
               (doc, initial_score * 0.5 + term_overlap q (page_content doc) * 0.5)) documents))"

definition extract_references :: "services \<Rightarrow> scored list \<Rightarrow> string list" where
  \<comment> \<open>\<open>ContextEnricher._extract_references\<close>\<close>
  "extract_references env documents =
     (let references =
            concat (map (\<lambda>(doc, score). findall_cross_refs env (py_lower (page_content doc)))
                      documents)
            @ concat (map (\<lambda>(doc, score).
                        (let refs = meta_get_or doc ''references_sections'' []
                         in if refs \<noteq> [] then split_on (CHR '','') refs else [])) documents)
      in set_order env (map py_strip (filter (\<lambda>r. py_strip r \<noteq> []) references)))"

definition find_related_section ::
  "services \<Rightarrow> string \<Rightarrow> string option list \<Rightarrow> scored list" where
  \<comment> \<open>\<open>ContextEnricher._find_related_section\<close>: a failed lookup gives nothing\<close>
  "find_related_section env section_ref exclude_ids =
     (case similarity_search env (''section '' @ section_ref) 2 None None of
        Inl e \<Rightarrow> []
      | Inr results \<Rightarrow>
          filter (\<lambda>(doc, score). meta_get doc ''chunk_id'' \<notin> set exclude_ids) results)"

fun collect_related :: "services \<Rightarrow> string list \<Rightarrow> string option list \<Rightarrow> scored list" where
  \<comment> \<open>the loop of \<open>enrich\<close> over the references, with the ids seen so far\<close>
  "collect_related env [] existing_ids = []"
| "collect_related env (section_ref # rest) existing_ids =
     (let related = find_related_section env section_ref existing_ids
      in related @ collect_related env rest
           (existing_ids @ map (\<lambda>(doc, score). meta_get doc ''chunk_id'') related))"

definition enrich :: "services \<Rightarrow> scored list \<Rightarrow> string \<Rightarrow> int \<Rightarrow> scored list" where
  \<comment> \<open>\<open>ContextEnricher.enrich\<close>\<close>
  "enrich env documents q max_additional =
     (if documents = [] then []
      else (let referenced_sections = extract_references env documents;
                existing_ids = map (\<lambda>(doc, score). meta_get doc ''chunk_id'') documents;
                additional_docs =
                  collect_related env (py_take max_additional referenced_sections) existing_ids
            in documents @ map (\<lambda>(doc, score). (doc, score * 0.8)) additional_docs))"

fun parse_ints :: "services \<Rightarrow> string list \<Rightarrow> int list option" where
  "parse_ints env [] = Some []"
| "parse_ints env (p # ps) =
     (case py_int env p of
        None \<Rightarrow> None
      | Some i \<Rightarrow> (case parse_ints env ps of None \<Rightarrow> None | Some ns \<Rightarrow> Some (i # ns)))"

definition page_numbers_of :: "services \<Rightarrow> Document \<Rightarrow> int list" where
  \<comment> \<open>the page numbers of \<open>_to_retrieved_chunks\<close>: none when one of them is no integer\<close>
  "page_numbers_of env doc =
     (let page_numbers_str = meta_get_or doc ''page_numbers'' []
      in if page_numbers_str = [] then []
         else (case parse_ints env (filter (\<lambda>p. p \<noteq> []) (split_on (CHR '','') page_numbers_str)) of
                 None \<Rightarrow> []
               | Some ns \<Rightarrow> ns))"

definition RetrievedChunk_init ::
  "services \<Rightarrow> string \<Rightarrow> string \<Rightarrow> real \<Rightarrow> string \<Rightarrow> string option \<Rightarrow> int list
     \<Rightarrow> exn + RetrievedChunk" where
  \<comment> \<open>the constructor: \<open>relevance_score\<close> is declared with \<open>ge=0.0\<close>\<close>
  "RetrievedChunk_init env cid body score source sect pages =
     (if 0 \<le> score
      then Inr \<lparr>chunk_id = cid, content = body, relevance_score = score,
                source_document = source, rc_section = sect, page_numbers = pages\<rparr>
      else Inl (ValidationError, raised_message env ValidationError))"

fun to_retrieved_chunks :: "services \<Rightarrow> scored list \<Rightarrow> exn + RetrievedChunk list" where
  "to_retrieved_chunks env [] = Inr []"
| "to_retrieved_chunks env ((doc, score) # rest) =
     (case RetrievedChunk_init env (meta_get_or doc ''chunk_id'' []) (page_content doc) score
             (meta_get_or doc ''source_file'' []) (meta_get doc ''section_title'')
             (page_numbers_of env doc) of
        Inl e \<Rightarrow> Inl e
      | Inr chunk \<Rightarrow>
          (case to_retrieved_chunks env rest of
             Inl e \<Rightarrow> Inl e
           | Inr chunks \<Rightarrow> Inr (chunk # chunks)))"

definition retrieve ::
  "services \<Rightarrow> pipeline \<Rightarrow> string \<Rightarrow> string option \<Rightarrow> string option \<Rightarrow> bool
     \<Rightarrow> exn + RetrievedChunk list" where
  \<comment> \<open>\<open>RetrievalPipeline.retrieve\<close>\<close>
  "retrieve env pl q project_name section_filter include_enrichment =
     (case initial_retrieval env pl q project_name (top_k pl * 2) of
        Inl e \<Rightarrow> Inl e
      | Inr initial_results \<Rightarrow>
          if initial_results = [] then Inr []
          else (let filtered_results = apply_filters initial_results section_filter
                in case (if use_llm_reranking pl
                         then rerank env q filtered_results (Some (int (top_k pl)))
                         else Inr (simple_rerank q filtered_results (Some (int (top_k pl))))) of
                     Inl e \<Rightarrow> Inl e
                   | Inr reranked_results \<Rightarrow>
                       to_retrieved_chunks env
                         (if include_enrichment then enrich env reranked_results q 3
                          else reranked_results)))"

definition section_matches :: "string \<Rightarrow> Document \<Rightarrow> bool" where
  \<comment> \<open>the section title or the hierarchy path contains the filter, whatever the case\<close>
  "section_matches flt doc =
     (py_contains (py_lower (meta_get_or doc ''section_title'' [])) (py_lower flt) \<or>
      py_contains (py_lower (meta_get_or doc ''section_hierarchy'' [])) (py_lower flt))"

definition similarity :: "scored \<Rightarrow> scored" where
  \<comment> \<open>a document with its distance, turned into the document with its similarity\<close>
  "similarity r = (fst r, 1 / (1 + snd r))"

text \<open>
  An index for the examples: one chunk at distance 9 from every query, which points to the
  sections 2.1, 2.2 and 2.3, and two further chunks for each of these sections. The model
  of the examples replies \<open>150\<close> to every prompt, and \<open>float()\<close> reads that reply as
  the number 150 and the text \<open>nan\<close> as NaN; the chunk's text holds no cross-reference
  phrase.
\<close>

definition overview_doc :: Document where
  "overview_doc =
     \<lparr>page_content = ''Security overview'',
      metadata = [(''chunk_id'', ''c0''), (''section_title'', ''1 Overview''),
                  (''section_hierarchy'', ''1''), (''references_sections'', ''2.1,2.2,2.3'')]\<rparr>"

definition related_doc :: "string \<Rightarrow> Document" where
  "related_doc cid = \<lparr>page_content = ''Referenced text'', metadata = [(''chunk_id'', cid)]\<rparr>"

definition example_index :: "string \<Rightarrow> nat \<Rightarrow> (string \<times> string) option \<Rightarrow> exn + scored list" where
  "example_index q k filter_dict =
     (if q = ''section 2.1'' then Inr [(related_doc ''c1'', 1), (related_doc ''c2'', 3)]
      else if q = ''section 2.2'' then Inr [(related_doc ''c3'', 1), (related_doc ''c4'', 3)]
      else if q = ''section 2.3'' then Inr [(related_doc ''c5'', 1), (related_doc ''c6'', 3)]
      else Inr [(overview_doc, 9)])"

definition example_services :: services where
  "example_services =
     \<lparr>index_query = example_index,
      llm_invoke = (\<lambda>prompt. Inr ''150''),
      py_float = (\<lambda>s. if s = ''150'' then Some (Finite 150)
                      else if s = ''nan'' then Some NaN else None),
      py_int = (\<lambda>s. None),
      findall_cross_refs = (\<lambda>s. []),
      set_order = remdups,
      raised_message = (\<lambda>cls. [])\<rparr>"

definition example_pipeline :: pipeline where
  "example_pipeline = \<lparr>top_k = 10, similarity_threshold = 3 / 10, use_llm_reranking = False\<rparr>"

section \<open>The analysis workflow\<close>

datatype QueryType =
  REQUIREMENT_EXTRACTION | GAP_ANALYSIS | COMPLIANCE_CHECK | CONFLICT_DETECTION
  | AMBIGUITY_ANALYSIS | GENERAL

text \<open>\<open>AnalysisRequest\<close>; a value of the record is a request that passed validation.\<close>

record AnalysisRequest =
  req_query :: string
  req_project_name :: "string option"
  req_query_type :: QueryType
  req_target_section :: "string option"
  req_context :: "(string \<times> pyval) list option"
  req_additional_context :: "(string \<times> pyval) list"
  req_include_reasoning :: bool
  req_max_results :: int

definition AnalysisRequest_default ::
  "library \<Rightarrow> string \<Rightarrow> QueryType \<Rightarrow> string option \<Rightarrow> exn + AnalysisRequest" where
  \<comment> \<open>the default request of \<open>analyze_content\<close>: the query must have 5 to 2000 characters\<close>
  "AnalysisRequest_default lib q qt project =
     (if 5 \<le> length q \<and> length q \<le> 2000
      then Inr \<lparr>req_query = q, req_project_name = project, req_query_type = qt,
                req_target_section = None, req_context = None, req_additional_context = [],
                req_include_reasoning = True, req_max_results = 10\<rparr>
      else Inl (ValidationError, py_message lib ValidationError (PStr q)))"

text \<open>\<open>GraphState\<close>, without its free-form \<open>metadata\<close>, which no node reads or writes.\<close>

record GraphState =
  st_request :: "AnalysisRequest option"
  st_query :: string
  st_query_type :: QueryType
  st_project_filter :: "string option"
  st_retrieved_chunks :: "RetrievedChunk list"
  st_context :: string
  st_analysis_response :: "AnalysisResponse option"
  st_error :: "string option"
  st_current_step :: string

text \<open>
  What the nodes call: the analyzer's \<open>detect_query_type\<close> and \<open>analyze\<close> and the
  pipeline's \<open>retrieve\<close>, each of which returns or raises, and the library behind the
  response model. An exception is seen by the nodes through \<open>str(e)\<close> only.
\<close>

record collaborators =
  detect_query_type :: "string \<Rightarrow> exn + QueryType"
  retrieve_chunks :: "string \<Rightarrow> string option \<Rightarrow> string option \<Rightarrow> bool \<Rightarrow> exn + RetrievedChunk list"
  analyze :: "AnalysisRequest \<Rightarrow> RetrievedChunk list \<Rightarrow> exn + AnalysisResponse"
  pydantic :: library

definition failed :: "GraphState \<Rightarrow> exn \<Rightarrow> GraphState" where
  \<comment> \<open>the update \<open>{"error": str(e), "current_step": "error"}\<close> of an \<open>except\<close> branch\<close>
  "failed st e = st\<lparr>st_error := Some (snd e), st_current_step := ''error''\<rparr>"

definition process_query :: "collaborators \<Rightarrow> GraphState \<Rightarrow> GraphState" where
  \<comment> \<open>\<open>GraphNodes.process_query\<close>\<close>
  "process_query co st =
     (case (case st_request st of
              None \<Rightarrow> Inr GENERAL
            | Some request \<Rightarrow>
                if req_query_type request = GENERAL then detect_query_type co (st_query st)
                else Inr (req_query_type request)) of
        Inl e \<Rightarrow> failed st e
      | Inr detected_type \<Rightarrow>
          (let project_filter =
                 (if \<not> str_truthy (st_project_filter st) \<and> st_request st \<noteq> None
                  then req_project_name (the (st_request st))
                  else st_project_filter st)
           in st\<lparr>st_query_type := detected_type, st_project_filter := project_filter,
                  st_current_step := ''query_processed''\<rparr>))"

fun context_parts :: "nat \<Rightarrow> RetrievedChunk list \<Rightarrow> string list" where
  \<comment> \<open>the parts of \<open>_build_context\<close>, numbered from \<open>i\<close>\<close>
  "context_parts i [] = []"
| "context_parts i (chunk # rest) =
     (''--- Chunk '' @ nat_digits i @ '' ''
        @ (if str_truthy (rc_section chunk) then ''['' @ the (rc_section chunk) @ '']'' else [])
        @ '' ---'' @ [CHR 0x0A] @ content chunk @ [CHR 0x0A])
     # context_parts (Suc i) rest"

definition build_context :: "RetrievedChunk list \<Rightarrow> string" where
  "build_context chunks = join_with [CHR 0x0A] (context_parts 1 chunks)"

definition retrieve_documents :: "collaborators \<Rightarrow> GraphState \<Rightarrow> GraphState" where
  \<comment> \<open>\<open>GraphNodes.retrieve_documents\<close>\<close>
  "retrieve_documents co st =
     (let section_filter =
            (case st_request st of
               None \<Rightarrow> None
             | Some request \<Rightarrow>
                 if str_truthy (req_target_section request) then req_target_section request
                 else None)
      in case retrieve_chunks co (st_query st) (st_project_filter st) section_filter True of
           Inl e \<Rightarrow> failed st e
         | Inr chunks \<Rightarrow>
             st\<lparr>st_retrieved_chunks := chunks, st_context := build_context chunks,
                 st_current_step := ''documents_retrieved''\<rparr>)"

definition analyze_content :: "collaborators \<Rightarrow> GraphState \<Rightarrow> GraphState" where
  \<comment> \<open>\<open>GraphNodes.analyze_content\<close>\<close>
  "analyze_content co st =
     (case (case st_request st of
              None \<Rightarrow> AnalysisRequest_default (pydantic co) (st_query st) (st_query_type st)
                        (st_project_filter st)
            | Some request \<Rightarrow> Inr request) of
        Inl e \<Rightarrow> failed st e
      | Inr request \<Rightarrow>
          (case analyze co request (st_retrieved_chunks st) of
             Inl e \<Rightarrow> failed st e
           | Inr response \<Rightarrow>
               st\<lparr>st_analysis_response := Some response,
                   st_current_step := ''analysis_complete''\<rparr>))"

definition error_text :: "string option \<Rightarrow> string" where
  \<comment> \<open>\<open>f"{state.error}"\<close>\<close>
  "error_text e = (case e of None \<Rightarrow> ''None'' | Some msg \<Rightarrow> msg)"

definition handle_error :: "collaborators \<Rightarrow> GraphState \<Rightarrow> exn + GraphState" where
  \<comment> \<open>\<open>GraphNodes.handle_error\<close>\<close>
  "handle_error co st =
     (case AnalysisResponse_init (pydantic co) []
             (Some (PStr (''An error occurred during analysis: '' @ error_text (st_error st))))
             None
             (Some (PInt 0))
             (Some (PList [PStr ''Analysis could not be completed due to an error'']))
             (Some (PStr (if st_query st \<noteq> [] then st_query st else ''Unknown query''))) of
        Inl e \<Rightarrow> Inl e
      | Inr error_response \<Rightarrow>
          Inr (st\<lparr>st_analysis_response := Some error_response,
                   st_current_step := ''error_handled''\<rparr>))"

definition route_after_query :: "GraphState \<Rightarrow> string" where
  \<comment> \<open>\<open>if state.error: return "error"\<close>: the test is the truth value of the string\<close>
  "route_after_query st = (if str_truthy (st_error st) then ''error'' else ''retrieve'')"

definition route_after_retrieval :: "GraphState \<Rightarrow> string" where
  "route_after_retrieval st =
     (if str_truthy (st_error st) then ''error''
      else if st_retrieved_chunks st = [] then ''analyze''
      else ''analyze'')"

definition route_after_analysis :: "GraphState \<Rightarrow> string" where
  "route_after_analysis st = (if str_truthy (st_error st) then ''error'' else ''end'')"

text \<open>
  The graph of \<open>_build_graph\<close>: its four nodes and \<open>END\<close>, the edges chosen by the
  routers, and the run from a node to \<open>END\<close>.
\<close>

datatype node = ProcessQuery | RetrieveDocuments | AnalyzeContent | HandleError | END

definition run_node :: "collaborators \<Rightarrow> node \<Rightarrow> GraphState \<Rightarrow> exn + GraphState" where
  "run_node co n st =
     (case n of
        ProcessQuery \<Rightarrow> Inr (process_query co st)
      | RetrieveDocuments \<Rightarrow> Inr (retrieve_documents co st)
      | AnalyzeContent \<Rightarrow> Inr (analyze_content co st)
      | HandleError \<Rightarrow> handle_error co st
      | END \<Rightarrow> Inr st)"

definition next_node :: "node \<Rightarrow> GraphState \<Rightarrow> node" where
  "next_node n st =
     (case n of
        ProcessQuery \<Rightarrow>
          if route_after_query st = ''error'' then HandleError else RetrieveDocuments
      | RetrieveDocuments \<Rightarrow>
          if route_after_retrieval st = ''error'' then HandleError else AnalyzeContent
      | AnalyzeContent \<Rightarrow>
          if route_after_analysis st = ''error'' then HandleError else END
      | HandleError \<Rightarrow> END
      | END \<Rightarrow> END)"

fun node_rank :: "node \<Rightarrow> nat" where
  "node_rank ProcessQuery = 4"
| "node_rank RetrieveDocuments = 3"
| "node_rank AnalyzeContent = 2"
| "node_rank HandleError = 1"
| "node_rank END = 0"

lemma next_node_rank: "n \<noteq> END \<Longrightarrow> node_rank (next_node n st) < node_rank n"
  by (cases n) (simp_all add: next_node_def)

function invoke_from :: "collaborators \<Rightarrow> node \<Rightarrow> GraphState \<Rightarrow> exn + GraphState" where
  "invoke_from co n st =
     (if n = END then Inr st
      else (case run_node co n st of
              Inl e \<Rightarrow> Inl e
            | Inr st' \<Rightarrow> invoke_from co (next_node n st') st'))"
  by pat_completeness auto
termination
  by (relation "measure (\<lambda>(co, n, st). node_rank n)") (simp_all add: next_node_rank)

definition initial_state :: "AnalysisRequest \<Rightarrow> GraphState" where
  \<comment> \<open>the state \<open>run\<close> starts from\<close>
  "initial_state request =
     \<lparr>st_request = Some request, st_query = req_query request,
      st_query_type = req_query_type request, st_project_filter = req_project_name request,
      st_retrieved_chunks = [], st_context = [], st_analysis_response = None,
      st_error = None, st_current_step = ''start''\<rparr>"

definition run :: "collaborators \<Rightarrow> AnalysisRequest \<Rightarrow> exn + AnalysisResponse" where
  \<comment> \<open>\<open>RFPAnalysisGraph.run\<close>; its own fallback response is built without a \<open>query\<close>\<close>
  "run co request =
     (case invoke_from co ProcessQuery (initial_state request) of
        Inl e \<Rightarrow> Inl e
      | Inr final_state \<Rightarrow>
          (case st_analysis_response final_state of
             Some response \<Rightarrow> Inr response
           | None \<Rightarrow>
               AnalysisResponse_init (pydantic co) [] (Some (PStr ''No response generated''))
                 None (Some (PInt 0)) None None))"

text \<open>
  A run for the examples: query processing and retrieval succeed, and the analyzer raises an
  exception whose \<open>str()\<close> is empty, as \<open>TimeoutError()\<close> has.
\<close>

definition example_request :: AnalysisRequest where
  "example_request =
     \<lparr>req_query = ''What are the security requirements?'', req_project_name = None,
      req_query_type = REQUIREMENT_EXTRACTION, req_target_section = None, req_context = None,
      req_additional_context = [], req_include_reasoning = True, req_max_results = 10\<rparr>"

definition silent_failure :: collaborators where
  "silent_failure =
     \<lparr>detect_query_type = (\<lambda>q. Inr GENERAL),
      retrieve_chunks = (\<lambda>q project sect enrichment. Inr []),
      analyze = (\<lambda>request chunks. Inl (OtherError, [])),
      pydantic = example_library\<rparr>"

definition error_response :: "string \<Rightarrow> string \<Rightarrow> AnalysisResponse" where
  \<comment> \<open>the response \<open>handle_error\<close> builds for a query and an error message\<close>
  "error_response q msg =
     \<lparr>extracted_requirements = [],
      reasoning = ''An error occurred during analysis: '' @ msg,
      gaps_or_conflicts = [], confidence = 0,
      uncertainties = [''Analysis could not be completed due to an error''],
      query = (if q \<noteq> [] then q else ''Unknown query''),
      retrieved_chunks = [], processing_time_ms = 0\<rparr>"


section \<open>Facts about Python strings\<close>

lemma isspace_lower_char: "py_isspace (lower_char c) = py_isspace c"
  unfolding py_isspace_def lower_char_def Let_def by auto

lemma lower_char_idem: "lower_char (lower_char c) = lower_char c"
  unfolding lower_char_def Let_def by auto

lemma py_lower_idem: "py_lower (py_lower s) = py_lower s"
  by (simp add: py_lower_def lower_char_idem)

lemma py_strip_lower: "py_strip (py_lower s) = py_lower (py_strip s)"
  unfolding py_strip_def py_lstrip_def py_rstrip_def py_lower_def
  by (simp add: dropWhile_map rev_map comp_def isspace_lower_char)

lemma rstrip_keeps_head:
  "\<not> P x \<Longrightarrow> rev (dropWhile P (rev xs @ [x])) = x # rev (dropWhile P (rev xs))"
  by (cases "\<forall>y\<in>set xs. P y") (auto simp: dropWhile_append)

lemma lstrip_rstrip_fix_gen:
  "t = [] \<or> \<not> P (hd t) \<Longrightarrow>
   dropWhile P (rev (dropWhile P (rev t))) = rev (dropWhile P (rev t))"
  by (cases t) (auto simp: rstrip_keeps_head)

lemma lstrip_rstrip_fix:
  "dropWhile P (rev (dropWhile P (rev (dropWhile P s)))) = rev (dropWhile P (rev (dropWhile P s)))"
  by (rule lstrip_rstrip_fix_gen) (metis hd_dropWhile)

lemma py_strip_idem: "py_strip (py_strip s) = py_strip s"
  unfolding py_strip_def py_lstrip_def py_rstrip_def
  by (simp add: lstrip_rstrip_fix)

section \<open>Priority normalization\<close>

lemmas priority_eval =
  normalize_priority_def py_strip_def py_lstrip_def py_rstrip_def py_lower_def
  lower_char_def py_isspace_def priority_map_def

lemma normalize_priority_fixed_values:
  "normalize_priority (Some ''high'') = Some ''high''"
  "normalize_priority (Some ''medium'') = Some ''medium''"
  "normalize_priority (Some ''low'') = Some ''low''"
  by (simp_all add: priority_eval)

lemma normalize_priority_synonyms:
  "normalize_priority (Some ''critical'') = Some ''high''"
  "normalize_priority (Some ''mandatory'') = Some ''high''"
  "normalize_priority (Some ''moderate'') = Some ''medium''"
  "normalize_priority (Some ''normal'') = Some ''medium''"
  "normalize_priority (Some ''optional'') = Some ''low''"
  "normalize_priority (Some ''nice-to-have'') = Some ''low''"
  "normalize_priority None = None"
  by (simp_all add: priority_eval)

lemma map_of_priority_map_range:
  "map_of priority_map k = Some v \<Longrightarrow> v = ''high'' \<or> v = ''medium'' \<or> v = ''low''"
  by (auto simp: priority_map_def split: if_splits)

text \<open>
  Away from the strings that normalize to the empty string, a second normalization changes
  nothing.
\<close>

lemma normalize_priority_idem_nonempty:
  assumes "normalize_priority x \<noteq> Some []"
  shows "normalize_priority (normalize_priority x) = normalize_priority x"
proof (cases x)
  case None
  then show ?thesis by (simp add: normalize_priority_def)
next
  case (Some p)
  show ?thesis
  proof (cases "p = []")
    case True
    with Some show ?thesis by (simp add: normalize_priority_def)
  next
    case False
    let ?y = "py_strip (py_lower p)"
    show ?thesis
    proof (cases "map_of priority_map ?y")
      case None
      with Some False have nx: "normalize_priority x = Some ?y"
        by (simp add: normalize_priority_def)
      with assms have "?y \<noteq> []" by simp
      moreover have "py_strip (py_lower ?y) = ?y"
        by (simp add: py_strip_lower py_lower_idem py_strip_idem)
      ultimately show ?thesis using None nx
        by (simp add: normalize_priority_def)
    next
      case (Some v)
      with \<open>x = Some p\<close> False have nx: "normalize_priority x = Some v"
        by (simp add: normalize_priority_def)
      from map_of_priority_map_range [OF Some] show ?thesis
        using nx normalize_priority_fixed_values by auto
    qed
  qed
qed

lemma normalize_priority_empty_iff:
  "normalize_priority x = Some [] \<longleftrightarrow> (\<exists>p. x = Some p \<and> p \<noteq> [] \<and> py_strip (py_lower p) = [])"
  by (cases x) (auto simp: normalize_priority_def Let_def priority_map_def
      split: option.splits if_splits)

text \<open>
  Claim C9. Priority normalization is meant to be idempotent on every string and on the
  absent value. The emptiness test of \<open>_normalize_priority\<close> runs before the strip, so a
  priority made of one space normalizes to the empty string, and the empty string
  normalizes to the absent value: the second normalization changes the result.
\<close>

theorem normalize_priority_whitespace_not_idempotent:
  "normalize_priority (Some '' '') = Some [] \<and>
   normalize_priority (normalize_priority (Some '' '')) = None \<and>
   normalize_priority (normalize_priority (Some '' '')) \<noteq> normalize_priority (Some '' '')"
  by (simp add: priority_eval)

section \<open>The structured output parser\<close>

lemma AnalysisResponse_init_fallback:
  "AnalysisResponse_init lib [] (Some (PStr r)) None (Some (PInt 0)) None (Some (PStr q)) =
     Inr \<lparr>extracted_requirements = [], reasoning = r, gaps_or_conflicts = [],
          confidence = 0, uncertainties = [], query = q,
          retrieved_chunks = [], processing_time_ms = 0\<rparr>"
  by (simp add: AnalysisResponse_init_def field_required_def field_or_def v_str_def
      v_confidence_def v_float_def)

lemma v_confidence_range: "v_confidence lib v = Some c \<Longrightarrow> 0 \<le> c \<and> c \<le> 100"
  by (auto simp: v_confidence_def split: option.splits if_splits)

lemma AnalysisResponse_init_Inr:
  assumes "AnalysisResponse_init lib reqs (Some a) g (Some c) u (Some (PStr q)) = Inr r"
  shows "query r = q \<and> 0 \<le> confidence r \<and> confidence r \<le> 100 \<and> a = PStr (reasoning r)
         \<and> extracted_requirements r = reqs"
  using assms
  by (auto simp: AnalysisResponse_init_def field_required_def field_or_def v_str_def
      split: option.splits pyval.splits dest: v_confidence_range)

lemma parse_attempt_Inr:
  assumes "parse_attempt lib llm_output q = Inr r"
  shows "query r = q \<and> 0 \<le> confidence r \<and> confidence r \<le> 100 \<and>
         (\<exists>d. extract_json lib llm_output = Inr (PDict d) \<and>
              dict_get d ''reasoning'' (PStr []) = PStr (reasoning r))"
  using assms
  by (auto simp: parse_attempt_def get_method_def split: sum.splits pyval.splits
      dest!: AnalysisResponse_init_Inr)

lemma failure_reasoning_nonempty: "failure_reasoning msg llm_output \<noteq> []"
  by (simp add: failure_reasoning_def)

text \<open>The two ways out of \<open>parse\<close>: the response of the \<open>try\<close> block, or the fallback.\<close>

lemma parse_cases:
  "(\<exists>r. parse_attempt lib llm_output q = Inr r \<and> parse lib llm_output q = Inr r) \<or>
   (\<exists>cls msg. parse_attempt lib llm_output q = Inl (cls, msg) \<and>
      parse lib llm_output q =
        Inr \<lparr>extracted_requirements = [], reasoning = failure_reasoning msg llm_output,
             gaps_or_conflicts = [], confidence = 0, uncertainties = [], query = q,
             retrieved_chunks = [], processing_time_ms = 0\<rparr>)"
  by (cases "parse_attempt lib llm_output q") (auto simp: parse_def AnalysisResponse_init_fallback)

lemma parse_empty_object:
  "parse example_library ''{}'' ''What is required?'' =
     Inr \<lparr>extracted_requirements = [], reasoning = [], gaps_or_conflicts = [],
          confidence = 50, uncertainties = [], query = ''What is required?'',
          retrieved_chunks = [], processing_time_ms = 0\<rparr>"
  by (simp add: parse_def parse_attempt_def extract_json_def example_library_def get_method_def
      dict_get_def parse_requirements_def py_iter_def AnalysisResponse_init_def
      field_required_def field_or_def v_str_def v_str_list_def v_confidence_def v_float_def)

text \<open>
  Claim C1, as stated: \<open>parse\<close> returns for every text, with a confidence in [0,100] and a
  reasoning that is not empty. On the text \<open>{}\<close> the decoder returns the empty object,
  \<open>json_data.get("reasoning", "")\<close> is the empty string, and the response that
  \<open>parse\<close> returns has an empty reasoning.
\<close>

theorem parse_empty_object_reasoning_empty:
  "parse example_library ''{}'' ''What is required?'' =
     Inr \<lparr>extracted_requirements = [], reasoning = [], gaps_or_conflicts = [],
          confidence = 50, uncertainties = [], query = ''What is required?'',
          retrieved_chunks = [], processing_time_ms = 0\<rparr>"
  by (rule parse_empty_object)

lemma parse_attempt_prose:
  "parse_attempt example_library ''This is not valid JSON at all'' ''What is required?'' =
     Inl (ValueError, ''No JSON object found in text'')"
proof -
  have f: "fix_and_parse_json example_library ''This is not valid JSON at all'' =
     Inl (ValueError, ''No JSON object found in text'')"
    by (simp add: fix_and_parse_json_def py_find_char_def)
  have jl: "json_loads example_library ''This is not valid JSON at all'' =
     Inl (JSONDecodeError, ''Expecting value'')"
    by (simp add: example_library_def)
  have c: "json_candidates ''This is not valid JSON at all'' = []"
    by (simp add: json_candidates_def findall_braces_def)
  have "extract_json example_library ''This is not valid JSON at all'' =
     Inl (ValueError, ''No JSON object found in text'')"
    by (simp add: extract_json_def c f jl)
  then show ?thesis by (simp add: parse_attempt_def)
qed

lemma parse_attempt_empty_object:
  "parse_attempt example_library ''{}'' ''What is required?'' =
     Inr \<lparr>extracted_requirements = [], reasoning = [], gaps_or_conflicts = [],
          confidence = 50, uncertainties = [], query = ''What is required?'',
          retrieved_chunks = [], processing_time_ms = 0\<rparr>"
  by (simp add: parse_attempt_def extract_json_def example_library_def get_method_def
      dict_get_def parse_requirements_def py_iter_def AnalysisResponse_init_def
      field_required_def field_or_def v_str_def v_str_list_def v_confidence_def v_float_def)

text \<open>
  Claim C1, amended: for every library, every text and every query, \<open>parse\<close> returns a
  response and raises nothing, and the confidence of the response is in [0,100]. When the
  \<open>try\<close> block of \<open>parse\<close> raises, the response is the fallback: no requirements,
  confidence 0, the query, and the reasoning "Failed to parse response: ", the message of
  the exception, ". Raw output: " and the first 500 characters of the text, which is never
  empty. When the \<open>try\<close> block returns, an object was extracted and its fields passed
  validation, the response is the one the block built, and its reasoning is the value the
  object holds under \<open>reasoning\<close>, the empty string when the key is absent or holds the
  empty string.
\<close>

theorem parse_total_confidence_range:
  "\<exists>r. parse lib llm_output q = Inr r \<and> 0 \<le> confidence r \<and> confidence r \<le> 100 \<and>
     ((parse_attempt lib llm_output q = Inr r \<and>
       (\<exists>d. extract_json lib llm_output = Inr (PDict d) \<and>
            dict_get d ''reasoning'' (PStr []) = PStr (reasoning r)))
      \<or>
      (\<exists>cls msg. parse_attempt lib llm_output q = Inl (cls, msg) \<and>
         r = \<lparr>extracted_requirements = [], reasoning = failure_reasoning msg llm_output,
              gaps_or_conflicts = [], confidence = 0, uncertainties = [], query = q,
              retrieved_chunks = [], processing_time_ms = 0\<rparr> \<and>
         reasoning r \<noteq> []))"
proof -
  from parse_cases [of lib llm_output q] show ?thesis
  proof
    assume "\<exists>r. parse_attempt lib llm_output q = Inr r \<and> parse lib llm_output q = Inr r"
    then obtain r where r: "parse_attempt lib llm_output q = Inr r"
      "parse lib llm_output q = Inr r" by blast
    from parse_attempt_Inr [OF r(1)] r show ?thesis by auto
  next
    assume "\<exists>cls msg. parse_attempt lib llm_output q = Inl (cls, msg) \<and>
      parse lib llm_output q =
        Inr \<lparr>extracted_requirements = [], reasoning = failure_reasoning msg llm_output,
             gaps_or_conflicts = [], confidence = 0, uncertainties = [], query = q,
             retrieved_chunks = [], processing_time_ms = 0\<rparr>"
    then show ?thesis by (auto simp: failure_reasoning_nonempty)
  qed
qed

theorem parse_total_confidence_range_witness:
  "(\<exists>r. parse example_library ''{}'' ''What is required?'' = Inr r \<and>
        parse_attempt example_library ''{}'' ''What is required?'' = Inr r \<and>
        reasoning r = [] \<and> confidence r = 50) \<and>
   (\<exists>r. parse example_library ''This is not valid JSON at all'' ''What is required?'' = Inr r \<and>
        reasoning r =
          failure_reasoning ''No JSON object found in text'' ''This is not valid JSON at all'' \<and>
        reasoning r \<noteq> [] \<and> confidence r = 0)"
  using parse_total_confidence_range [of example_library "''{}''" "''What is required?''"]
    parse_total_confidence_range [of example_library "''This is not valid JSON at all''"
      "''What is required?''"]
  by (auto simp: parse_attempt_prose parse_attempt_empty_object)

text \<open>
  Claim C10. For every library, every text and every query, \<open>parse\<close> returns a response
  whose \<open>query\<close> is the query argument, from the \<open>try\<close> block and from the fallback
  alike.
\<close>

theorem parse_query_preserved:
  "\<exists>r. parse lib llm_output q = Inr r \<and> query r = q"
  using parse_cases [of lib llm_output q] by (auto dest: parse_attempt_Inr)

theorem parse_query_preserved_witness:
  "\<exists>r. parse example_library ''plain prose'' ''What is required?'' = Inr r \<and>
       query r = ''What is required?''"
  using parse_query_preserved [of example_library "''plain prose''" "''What is required?''"]
  by simp

subsection \<open>When every extraction fails\<close>

lemma try_candidates_all_fail:
  "\<forall>m\<in>set ms. prefix ''{'' (py_strip m) \<longrightarrow> decode_fails lib (py_strip m) \<Longrightarrow>
   try_candidates lib ms = None"
  by (induction ms) (auto simp: decode_fails_def Let_def split: sum.splits)

lemma find_minus_one: "py_find_char c s = - 1 \<longleftrightarrow> c \<notin> set s"
  by (simp add: py_find_char_def)

lemma takeWhile_less_if_mem:
  "c \<in> set s \<Longrightarrow> length (takeWhile (\<lambda>d. d \<noteq> c) s) < length s"
  by (induction s) auto

lemma rfind_minus_one: "py_rfind_char c s = - 1 \<longleftrightarrow> c \<notin> set s"
  using takeWhile_less_if_mem [of c "rev s"] by (auto simp: py_rfind_char_def)

lemma parse_requirements_empty: "parse_requirements lib (PList []) = Inr []"
  by (simp add: parse_requirements_def py_iter_def)

lemma candidates_oops: "json_candidates ''{oops}'' = [''{oops}'']"
  by (simp add: json_candidates_def findall_braces_def)

lemma repair_input_oops: "repair_input ''{oops}'' = ''{oops}''"
  by (simp add: repair_input_def apply_fixes_def sub_single_quotes_def py_slice_def
      py_find_char_def py_rfind_char_def py_lstrip_def py_isspace_def py_isword_def)

lemma decode_fails_oops: "decode_fails example_library ''{oops}''"
  by (simp add: decode_fails_def example_library_def)

lemma py_strip_oops: "py_strip ''{oops}'' = ''{oops}''"
  by (simp add: py_strip_def py_lstrip_def py_rstrip_def py_isspace_def)

lemma candidates_prose: "json_candidates ''This is not valid JSON at all'' = []"
  by (simp add: json_candidates_def findall_braces_def)

lemma decode_fails_prose: "decode_fails example_library ''This is not valid JSON at all''"
  by (simp add: decode_fails_def example_library_def)

text \<open>
  Claim C5, as stated: when the direct parse, the fenced blocks and the brace repair all
  fail, \<open>parse\<close> returns the synthesized result (no requirements, the raw text as
  reasoning, confidence 30), also for a text without braces. On the text of the
  repository's test \<open>test_parse_malformed_json\<close> the decoder fails, no pattern matches,
  \<open>_fix_and_parse_json\<close> raises \<open>ValueError\<close> and \<open>parse\<close> returns its fallback,
  with confidence 0 and another reasoning.
\<close>

theorem parse_no_braces_not_synthesized:
  "decode_fails example_library ''This is not valid JSON at all'' \<and>
   json_candidates ''This is not valid JSON at all'' = [] \<and>
   fix_and_parse_json example_library ''This is not valid JSON at all'' =
     Inl (ValueError, ''No JSON object found in text'') \<and>
   parse example_library ''This is not valid JSON at all'' ''What is required?'' =
     Inr \<lparr>extracted_requirements = [],
          reasoning = ''Failed to parse response: No JSON object found in text. Raw output: This is not valid JSON at all'',
          gaps_or_conflicts = [], confidence = 0, uncertainties = [],
          query = ''What is required?'', retrieved_chunks = [], processing_time_ms = 0\<rparr>"
proof -
  have f: "fix_and_parse_json example_library ''This is not valid JSON at all'' =
     Inl (ValueError, ''No JSON object found in text'')"
    by (simp add: fix_and_parse_json_def py_find_char_def)
  have jl: "json_loads example_library ''This is not valid JSON at all'' =
     Inl (JSONDecodeError, ''Expecting value'')"
    by (simp add: example_library_def)
  have e: "extract_json example_library ''This is not valid JSON at all'' =
     Inl (ValueError, ''No JSON object found in text'')"
    by (simp add: extract_json_def candidates_prose f jl)
  have "parse_attempt example_library ''This is not valid JSON at all'' ''What is required?'' =
     Inl (ValueError, ''No JSON object found in text'')"
    by (simp add: parse_attempt_def e)
  then show ?thesis
    by (simp add: decode_fails_prose candidates_prose f parse_def
        AnalysisResponse_init_fallback failure_reasoning_def)
qed

text \<open>
  Claim C5, amended: when the direct parse fails, every match of the three patterns that
  starts with a brace fails to decode, and the repaired brace substring fails to decode,
  \<open>parse\<close> returns the synthesized result (no requirements, the raw text as reasoning,
  confidence 30) for every text that contains a \<open>{\<close> and a \<open>}\<close>; for a text that lacks
  one of them it returns the fallback: no requirements, confidence 0, and the reasoning
  "Failed to parse response: No JSON object found in text. Raw output: " followed by the
  first 500 characters of the text.
\<close>

theorem parse_all_extraction_failed:
  assumes direct: "decode_fails lib llm_output"
    and blocks: "\<forall>m\<in>set (json_candidates llm_output).
                   prefix ''{'' (py_strip m) \<longrightarrow> decode_fails lib (py_strip m)"
    and repair: "CHR ''{'' \<in> set llm_output \<and> CHR ''}'' \<in> set llm_output \<longrightarrow>
                   decode_fails lib (repair_input llm_output)"
  shows "parse lib llm_output q =
     Inr (if CHR ''{'' \<in> set llm_output \<and> CHR ''}'' \<in> set llm_output
          then \<lparr>extracted_requirements = [], reasoning = llm_output, gaps_or_conflicts = [],
                 confidence = 30, uncertainties = [], query = q,
                 retrieved_chunks = [], processing_time_ms = 0\<rparr>
          else \<lparr>extracted_requirements = [],
                 reasoning = failure_reasoning ''No JSON object found in text'' llm_output,
                 gaps_or_conflicts = [], confidence = 0, uncertainties = [], query = q,
                 retrieved_chunks = [], processing_time_ms = 0\<rparr>)"
proof -
  from direct blocks have ex: "extract_json lib llm_output = fix_and_parse_json lib llm_output"
    by (auto simp: extract_json_def decode_fails_def try_candidates_all_fail split: sum.splits)
  show ?thesis
  proof (cases "CHR ''{'' \<in> set llm_output \<and> CHR ''}'' \<in> set llm_output")
    case True
    with repair have "decode_fails lib (repair_input llm_output)" by simp
    with True have "fix_and_parse_json lib llm_output = Inr (synthesized llm_output)"
      by (auto simp: fix_and_parse_json_def Let_def find_minus_one rfind_minus_one
          decode_fails_def repair_input_def split: sum.splits)
    with ex have "parse_attempt lib llm_output q =
        Inr \<lparr>extracted_requirements = [], reasoning = llm_output, gaps_or_conflicts = [],
             confidence = 30, uncertainties = [], query = q,
             retrieved_chunks = [], processing_time_ms = 0\<rparr>"
      by (simp add: parse_attempt_def synthesized_def get_method_def dict_get_def
          parse_requirements_empty AnalysisResponse_init_def field_required_def field_or_def
          v_str_def v_str_list_def v_confidence_def v_float_def)
    with True show ?thesis by (simp add: parse_def)
  next
    case False
    then have "fix_and_parse_json lib llm_output =
        Inl (ValueError, ''No JSON object found in text'')"
      by (auto simp: fix_and_parse_json_def Let_def find_minus_one rfind_minus_one)
    with ex have "parse_attempt lib llm_output q =
        Inl (ValueError, ''No JSON object found in text'')"
      by (simp add: parse_attempt_def)
    with False show ?thesis by (simp add: parse_def AnalysisResponse_init_fallback)
  qed
qed

theorem parse_all_extraction_failed_witness:
  "decode_fails example_library ''{oops}'' \<and>
   json_candidates ''{oops}'' = [''{oops}''] \<and>
   decode_fails example_library (repair_input ''{oops}'') \<and>
   parse example_library ''{oops}'' ''What is required?'' =
     Inr \<lparr>extracted_requirements = [], reasoning = ''{oops}'', gaps_or_conflicts = [],
          confidence = 30, uncertainties = [], query = ''What is required?'',
          retrieved_chunks = [], processing_time_ms = 0\<rparr>"
  using parse_all_extraction_failed [of example_library "''{oops}''" "''What is required?''"]
  by (simp add: candidates_oops repair_input_oops decode_fails_oops py_strip_oops)

section \<open>Section segmentation\<close>

lemma split_lines_scenario:
  "split_lines scenario_text = [''1. Intro'', ''foo'', ''2. Req'', ''2.1 Security'', ''bar'']"
  by (simp add: scenario_text_def)

lemmas match_eval = match_section_def match_pattern_1_def match_pattern_2_def match_pattern_3_def
  strip_keyword_def dotted_numeral_def py_strip_def py_lstrip_def py_rstrip_def
  py_isspace_def py_isdigit_def py_isupper_ascii_def

lemma match_section_scenario_lines:
  "match_section ''1. Intro'' = None"
  "match_section ''foo'' = None"
  "match_section ''2. Req'' = None"
  "match_section ''2.1 Security'' = Some (''2.1'', ''2.1 Security'')"
  "match_section ''bar'' = None"
  "match_section ''1. Intro foo 2. Req 2.1 Security bar'' = None"
  by (simp_all add: match_eval)

lemma build_hierarchy_2_1: "build_hierarchy ''2.1'' = [''2'', ''2.1'']"
  by (simp add: build_hierarchy_def upt_rec [of 0] upt_rec [of 1])

lemma build_hierarchy_2_1_3: "build_hierarchy ''2.1.3'' = [''2'', ''2.1'', ''2.1.3'']"
  by (simp add: build_hierarchy_def upt_rec [of 0] upt_rec [of 1] upt_rec [of 2])

lemma identify_sections_raw:
  "identify_sections scenario_text =
     [\<lparr>sec_title = ''Introduction'', sec_number = ''0'',
        sec_content = ''1. Intro foo 2. Req'', sec_hierarchy = []\<rparr>,
      \<lparr>sec_title = ''2.1 Security'', sec_number = ''2.1'',
        sec_content = ''bar'', sec_hierarchy = [''2'', ''2.1'']\<rparr>]"
  by (simp add: identify_sections_def split_lines_scenario match_section_scenario_lines
      build_hierarchy_2_1 close_section_def)

lemma clean_text_scenario:
  "clean_text scenario_text = ''1. Intro foo 2. Req 2.1 Security bar''"
  by (simp add: clean_text_def scenario_text_def py_strip_def py_lstrip_def py_rstrip_def
      py_isspace_def)

lemma identify_sections_cleaned:
  "identify_sections (clean_text scenario_text) =
     [\<lparr>sec_title = ''Introduction'', sec_number = ''0'',
        sec_content = ''1. Intro foo 2. Req 2.1 Security bar'', sec_hierarchy = []\<rparr>]"
  by (simp add: clean_text_scenario identify_sections_def match_section_scenario_lines
      close_section_def)

text \<open>
  Claim C6, as stated: the scenario text yields three sections, numbered 0, 1 and 2.1, with
  the hierarchies [], [1] and [2, 2.1]. The lines \<open>1. Intro\<close> and \<open>2. Req\<close> match no
  pattern, since the second pattern wants white space straight after the numeral and finds
  a full stop. Neither \<open>_identify_sections\<close> on the text nor the segmentation inside
  \<open>split\<close>, which sees the text with its line feeds collapsed to spaces, gives these
  three sections.
\<close>

theorem identify_sections_scenario_not_three:
  "map (\<lambda>s. (sec_number s, sec_hierarchy s)) (identify_sections scenario_text) \<noteq>
     [(''0'', []), (''1'', [''1'']), (''2.1'', [''2'', ''2.1''])] \<and>
   map (\<lambda>s. (sec_number s, sec_hierarchy s)) (identify_sections (clean_text scenario_text)) \<noteq>
     [(''0'', []), (''1'', [''1'']), (''2.1'', [''2'', ''2.1''])]"
  by (simp add: identify_sections_raw identify_sections_cleaned)

text \<open>
  Claim C6, amended: segmenting the scenario text with \<open>_identify_sections\<close> yields
  exactly two sections, numbered 0 and 2.1, with the hierarchy paths [] and [2, 2.1]; the
  lines \<open>1. Intro\<close>, \<open>foo\<close> and \<open>2. Req\<close> are the body of the first and \<open>bar\<close> is
  the body of the second.
\<close>

theorem identify_sections_scenario:
  "identify_sections scenario_text =
     [\<lparr>sec_title = ''Introduction'', sec_number = ''0'',
        sec_content = ''1. Intro foo 2. Req'', sec_hierarchy = []\<rparr>,
      \<lparr>sec_title = ''2.1 Security'', sec_number = ''2.1'',
        sec_content = ''bar'', sec_hierarchy = [''2'', ''2.1'']\<rparr>]"
  by (rule identify_sections_raw)

section \<open>Retrieval: filtering and the initial search\<close>

lemma py_contains_sublist: "py_contains s sub \<longleftrightarrow> sublist sub s"
  by (induction s) (auto simp: sublist_Cons_right)

lemma py_contains_empty: "py_contains s []"
  by (simp add: py_contains_sublist)

lemma filter_by_section_filter:
  "filter_by_section (py_lower flt) acc docs = acc @ filter (\<lambda>d. section_matches flt (fst d)) docs"
  by (induction docs arbitrary: acc) (auto simp: section_matches_def Let_def)

text \<open>
  Claim C7. For every candidate list and every filter string: when no candidate's section
  title or hierarchy path contains the filter (case-insensitive substring), the filtering
  stage returns the whole candidate list; otherwise it returns exactly the candidates that
  match, in their order.
\<close>

theorem apply_filters_fallback:
  "apply_filters documents (Some flt) =
     (if \<forall>d\<in>set documents. \<not> section_matches flt (fst d) then documents
      else filter (\<lambda>d. section_matches flt (fst d)) documents)"
proof (cases "flt = []")
  case True
  have "section_matches [] doc" for doc
    by (simp add: section_matches_def py_lower_def py_contains_empty)
  with True show ?thesis by (auto simp: apply_filters_def str_truthy_def)
next
  case False
  then show ?thesis
    by (auto simp: apply_filters_def str_truthy_def filter_by_section_filter Let_def
        filter_empty_conv)
qed

lemma normalize_scores_Inr:
  "normalize_scores env ds = Inr rs \<Longrightarrow> rs = map similarity ds"
  by (induction ds arbitrary: rs) (auto simp: similarity_def split: if_splits sum.splits)

lemma similarity_range: "0 \<le> d \<Longrightarrow> 0 < 1 / (1 + d) \<and> 1 / (1 + d) \<le> (1::real)"
  by (simp add: field_simps)

text \<open>
  What stage 1 computes: every score is 1 / (1 + distance) for a result of the index and
  lies in (0,1] when the distance is not negative, and the branch without a project name
  keeps exactly the results whose similarity is at least the threshold.
\<close>

lemma initial_retrieval_characterised:
  assumes "initial_retrieval env pl q project_name k = Inr rs"
  shows "\<exists>ds. index_query env q k
                (if str_truthy project_name then Some (''project_name'', the project_name) else None)
              = Inr ds \<and>
           (\<forall>r\<in>set rs. \<exists>d\<in>set ds. r = (fst d, 1 / (1 + snd d)) \<and>
                 (0 \<le> snd d \<longrightarrow> 0 < snd r \<and> snd r \<le> 1)) \<and>
           (\<not> str_truthy project_name \<longrightarrow>
              rs = filter (\<lambda>r. similarity_threshold pl \<le> snd r) (map similarity ds) \<and>
              (\<forall>r\<in>set rs. similarity_threshold pl \<le> snd r)) \<and>
           (str_truthy project_name \<longrightarrow> rs = map similarity ds)"
proof -
  let ?f = "if str_truthy project_name then Some (''project_name'', the project_name) else None"
  from assms obtain ds ns where ds: "index_query env q k ?f = Inr ds"
    and ns: "normalize_scores env ds = Inr ns"
    and rs: "rs = (if str_truthy project_name then ns
                   else filter (\<lambda>(doc, score). similarity_threshold pl \<le> score) ns)"
    by (auto simp: initial_retrieval_def search_by_project_def similarity_search_def
        split: if_splits sum.splits)
  from normalize_scores_Inr [OF ns] have ns': "ns = map similarity ds" .
  have sub: "set rs \<subseteq> set (map similarity ds)" using rs ns' by auto
  have "\<forall>r\<in>set rs. \<exists>d\<in>set ds. r = (fst d, 1 / (1 + snd d)) \<and>
                 (0 \<le> snd d \<longrightarrow> 0 < snd r \<and> snd r \<le> 1)"
  proof
    fix r assume "r \<in> set rs"
    with sub obtain d where d: "d \<in> set ds" "r = similarity d" by auto
    then show "\<exists>d\<in>set ds. r = (fst d, 1 / (1 + snd d)) \<and> (0 \<le> snd d \<longrightarrow> 0 < snd r \<and> snd r \<le> 1)"
      using similarity_range [of "snd d"] by (auto simp: similarity_def)
  qed
  moreover have "rs = (if str_truthy project_name then map similarity ds
                       else filter (\<lambda>r. similarity_threshold pl \<le> snd r) (map similarity ds))"
    using rs ns' by (simp add: case_prod_unfold)
  ultimately show ?thesis using ds by (cases "str_truthy project_name") simp_all
qed

section \<open>Retrieval: context enrichment\<close>

lemma refs_example:
  "extract_references example_services [(overview_doc, 9 / 10)] = [''2.1'', ''2.2'', ''2.3'']"
  by (simp add: extract_references_def example_services_def overview_doc_def meta_get_or_def
      meta_get_def py_strip_def py_lstrip_def py_rstrip_def py_isspace_def)

lemma search_example:
  "similarity_search example_services ''section 2.1'' 2 None None =
     Inr [(related_doc ''c1'', 1 / 2), (related_doc ''c2'', 1 / 4)]"
  "similarity_search example_services ''section 2.2'' 2 None None =
     Inr [(related_doc ''c3'', 1 / 2), (related_doc ''c4'', 1 / 4)]"
  "similarity_search example_services ''section 2.3'' 2 None None =
     Inr [(related_doc ''c5'', 1 / 2), (related_doc ''c6'', 1 / 4)]"
  by (simp_all add: similarity_search_def example_services_def example_index_def)

lemma overview_chunk_id: "meta_get overview_doc ''chunk_id'' = Some ''c0''"
  by (simp add: meta_get_def overview_doc_def)

lemma related_chunk_id: "meta_get (related_doc cid) ''chunk_id'' = Some cid"
  by (simp add: meta_get_def related_doc_def)

lemma collect_example:
  "collect_related example_services [''2.1'', ''2.2'', ''2.3''] [Some ''c0''] =
     [(related_doc ''c1'', 1 / 2), (related_doc ''c2'', 1 / 4),
      (related_doc ''c3'', 1 / 2), (related_doc ''c4'', 1 / 4),
      (related_doc ''c5'', 1 / 2), (related_doc ''c6'', 1 / 4)]"
  by (simp add: find_related_section_def search_example related_chunk_id)

lemma enrich_example:
  "enrich example_services [(overview_doc, 9 / 10)] ''security requirements'' 3 =
     [(overview_doc, 9 / 10),
      (related_doc ''c1'', 2 / 5), (related_doc ''c2'', 1 / 5),
      (related_doc ''c3'', 2 / 5), (related_doc ''c4'', 1 / 5),
      (related_doc ''c5'', 2 / 5), (related_doc ''c6'', 1 / 5)]"
proof -
  have t: "py_take 3 [''2.1'', ''2.2'', ''2.3''] = [''2.1'', ''2.2'', ''2.3'']"
    by (simp add: py_take_def)
  show ?thesis
    by (simp add: enrich_def refs_example t overview_chunk_id collect_example
        del: collect_related.simps)
qed

lemma find_related_fresh:
  "r \<in> set (find_related_section env ref ex) \<Longrightarrow> meta_get (fst r) ''chunk_id'' \<notin> set ex"
  by (auto simp: find_related_section_def split: sum.splits)

lemma find_related_from_search:
  "r \<in> set (find_related_section env ref ex) \<Longrightarrow>
   \<exists>rs. similarity_search env (''section '' @ ref) 2 None None = Inr rs \<and> r \<in> set rs"
  by (cases "similarity_search env (''section '' @ ref) 2 None None")
     (auto simp: find_related_section_def)

lemma collect_related_fresh:
  "r \<in> set (collect_related env refs ex) \<Longrightarrow> meta_get (fst r) ''chunk_id'' \<notin> set ex"
proof (induction refs arbitrary: ex)
  case Nil
  then show ?case by simp
next
  case (Cons ref refs)
  from Cons.prems have "r \<in> set (find_related_section env ref ex) \<or>
      r \<in> set (collect_related env refs
            (ex @ map (\<lambda>(doc, score). meta_get doc ''chunk_id'') (find_related_section env ref ex)))"
    by (simp add: Let_def)
  then show ?case
  proof
    assume "r \<in> set (find_related_section env ref ex)"
    then show ?thesis by (rule find_related_fresh)
  next
    assume "r \<in> set (collect_related env refs
            (ex @ map (\<lambda>(doc, score). meta_get doc ''chunk_id'') (find_related_section env ref ex)))"
    from Cons.IH [OF this] show ?thesis by simp
  qed
qed

lemma collect_related_from_search:
  "r \<in> set (collect_related env refs ex) \<Longrightarrow>
   \<exists>ref\<in>set refs. \<exists>rs. similarity_search env (''section '' @ ref) 2 None None = Inr rs \<and> r \<in> set rs"
proof (induction refs arbitrary: ex)
  case Nil
  then show ?case by simp
next
  case (Cons ref refs)
  from Cons.prems have "r \<in> set (find_related_section env ref ex) \<or>
      r \<in> set (collect_related env refs
            (ex @ map (\<lambda>(doc, score). meta_get doc ''chunk_id'') (find_related_section env ref ex)))"
    by (simp add: Let_def)
  then show ?case
  proof
    assume "r \<in> set (find_related_section env ref ex)"
    from find_related_from_search [OF this] show ?thesis by auto
  next
    assume "r \<in> set (collect_related env refs
            (ex @ map (\<lambda>(doc, score). meta_get doc ''chunk_id'') (find_related_section env ref ex)))"
    from Cons.IH [OF this] show ?thesis by auto
  qed
qed

lemma length_py_take: "0 \<le> n \<Longrightarrow> length (py_take n xs) \<le> nat n"
  by (simp add: py_take_def)

lemma enrich_appended:
  assumes "documents \<noteq> []"
  shows "\<exists>extra. enrich env documents q n = documents @ map (\<lambda>r. (fst r, snd r * 0.8)) extra \<and>
     (\<forall>r\<in>set extra.
        meta_get (fst r) ''chunk_id'' \<notin> set (map (\<lambda>d. meta_get (fst d) ''chunk_id'') documents) \<and>
        (\<exists>ref rs. similarity_search env (''section '' @ ref) 2 None None = Inr rs \<and> r \<in> set rs))"
proof -
  let ?ex = "map (\<lambda>d. meta_get (fst d) ''chunk_id'') documents"
  let ?extra = "collect_related env (py_take n (extract_references env documents)) ?ex"
  have e: "enrich env documents q n = documents @ map (\<lambda>r. (fst r, snd r * 0.8)) ?extra"
    using assms by (simp add: enrich_def Let_def case_prod_unfold)
  have "\<forall>r\<in>set ?extra. meta_get (fst r) ''chunk_id'' \<notin> set ?ex \<and>
        (\<exists>ref rs. similarity_search env (''section '' @ ref) 2 None None = Inr rs \<and> r \<in> set rs)"
  proof
    fix r assume r: "r \<in> set ?extra"
    from collect_related_fresh [OF r] collect_related_from_search [OF r]
    show "meta_get (fst r) ''chunk_id'' \<notin> set ?ex \<and>
        (\<exists>ref rs. similarity_search env (''section '' @ ref) 2 None None = Inr rs \<and> r \<in> set rs)"
      by blast
  qed
  with e show ?thesis by blast
qed

text \<open>
  What holds of the chunks \<open>enrich\<close> appends, by \<open>enrich_appended\<close>: each carries 0.8
  times the similarity a lookup returned for it, and none has the chunk id of a document of
  the list that was passed in.
\<close>

text \<open>
  Claim C3. Context enrichment is meant to append at most \<open>max_additional\<close> chunks in
  all (the docstring of \<open>enrich\<close> calls the argument the maximum of additional documents
  to add). The code cuts the list of references to \<open>max_additional\<close> and then appends
  every new chunk of each lookup, which asks the index for two: with the pipeline's
  \<open>max_additional = 3\<close>, one retrieved chunk that points to three sections and an index
  with two new chunks for each of them, six chunks are appended.
\<close>

theorem enrich_exceeds_max_additional:
  "enrich example_services [(overview_doc, 9 / 10)] ''security requirements'' 3 =
     [(overview_doc, 9 / 10),
      (related_doc ''c1'', 2 / 5), (related_doc ''c2'', 1 / 5),
      (related_doc ''c3'', 2 / 5), (related_doc ''c4'', 1 / 5),
      (related_doc ''c5'', 2 / 5), (related_doc ''c6'', 1 / 5)] \<and>
   length (enrich example_services [(overview_doc, 9 / 10)] ''security requirements'' 3) =
     length [(overview_doc, 9 / 10 :: real)] + 6"
  by (simp add: enrich_example)

section \<open>Retrieval: re-ranking and the examples\<close>



lemma reply_score_nan:
  "py_float env (py_strip reply) = Some NaN \<Longrightarrow> reply_score env reply = Finite 0"
  by (simp add: reply_score_def py_min_def py_max_def)









lemma reply_nan_example:
  "reply_score example_services ''nan'' = Finite 0"
  by (simp add: reply_score_def py_min_def py_max_def example_services_def py_strip_def
      py_lstrip_def py_rstrip_def py_isspace_def)

lemma overview_matches:
  "\<not> section_matches ''Security'' overview_doc"
  "\<not> section_matches ''Security'' (related_doc ''c1'')"
  "section_matches ''OVERVIEW'' overview_doc"
  "\<not> section_matches ''OVERVIEW'' (related_doc ''c1'')"
  by (simp_all add: section_matches_def meta_get_or_def meta_get_def overview_doc_def
      related_doc_def py_lower_def lower_char_def char_of_def bit_Suc_0_iff)

theorem apply_filters_fallback_witness:
  "apply_filters [(overview_doc, 9 / 10), (related_doc ''c1'', 2 / 5)] (Some ''Security'') =
     [(overview_doc, 9 / 10), (related_doc ''c1'', 2 / 5)] \<and>
   apply_filters [(overview_doc, 9 / 10), (related_doc ''c1'', 2 / 5)] (Some ''OVERVIEW'') =
     [(overview_doc, 9 / 10)]"
  using apply_filters_fallback [of "[(overview_doc, 9 / 10), (related_doc ''c1'', 2 / 5)]" "''Security''"]
    apply_filters_fallback [of "[(overview_doc, 9 / 10), (related_doc ''c1'', 2 / 5)]" "''OVERVIEW''"]
  by (simp add: overview_matches)



lemma initial_no_project:
  "initial_retrieval example_services example_pipeline ''pricing'' None 20 = Inr []"
  by (simp add: initial_retrieval_def str_truthy_def similarity_search_def
      example_services_def example_index_def example_pipeline_def)

lemma initial_project:
  "initial_retrieval example_services example_pipeline ''pricing'' (Some ''Alpha'') 20 =
     Inr [(overview_doc, 1 / 10)]"
  by (simp add: initial_retrieval_def str_truthy_def search_by_project_def similarity_search_def
      example_services_def example_index_def example_pipeline_def)

lemma overlap_pricing: "term_overlap ''pricing'' ''Security overview'' = 0"
  by (simp add: term_overlap_def py_lower_def lower_char_def py_isspace_def)

lemma retrieve_project:
  "retrieve example_services example_pipeline ''pricing'' (Some ''Alpha'') None False =
     Inr [\<lparr>chunk_id = ''c0'', content = ''Security overview'', relevance_score = 1 / 20,
           source_document = [], rc_section = Some ''1 Overview'', page_numbers = []\<rparr>]"
proof -
  have k: "top_k example_pipeline * 2 = 20" "use_llm_reranking example_pipeline = False"
    "int (top_k example_pipeline) = 10"
    by (simp_all add: example_pipeline_def)
  have r: "simple_rerank ''pricing'' [(overview_doc, 1 / 10)] (Some 10) = [(overview_doc, 1 / 20)]"
    by (simp add: simple_rerank_def sort_descending_def truncate_top_k_def py_take_def
        overview_doc_def overlap_pricing)
  have c: "to_retrieved_chunks example_services [(overview_doc, 1 / 20)] =
     Inr [\<lparr>chunk_id = ''c0'', content = ''Security overview'', relevance_score = 1 / 20,
           source_document = [], rc_section = Some ''1 Overview'', page_numbers = []\<rparr>]"
    by (simp add: RetrievedChunk_init_def meta_get_or_def meta_get_def overview_doc_def
        page_numbers_of_def)
  show ?thesis
    by (simp add: retrieve_def k initial_project apply_filters_def str_truthy_def r c
        del: to_retrieved_chunks.simps)
qed

lemma initial_threshold_example:
  "initial_retrieval example_services example_pipeline ''section 2.1'' None 20 =
     Inr [(related_doc ''c1'', 1 / 2)]"
  by (simp add: initial_retrieval_def str_truthy_def similarity_search_def
      example_services_def example_index_def example_pipeline_def)

text \<open>
  Claim C8. In stage 1 every result whose similarity is below the configured threshold is
  meant to be dropped from the initial result set of a retrieve call without a section
  filter; the pipeline and the store document the threshold as the minimum similarity
  score. \<open>_initial_retrieval\<close> passes the threshold on only in its branch without a
  project name, and \<open>search_by_project\<close> does not take one: in a call with a project
  name and no section filter a chunk of similarity 1/10 stays in the initial result set
  under the threshold 3/10 and \<open>retrieve\<close> returns it, while the same query without
  the project name drops it.
\<close>

theorem initial_retrieval_project_keeps_low_scores:
  "initial_retrieval example_services example_pipeline ''pricing'' (Some ''Alpha'') 20 =
     Inr [(overview_doc, 1 / 10)] \<and>
   (1 / 10 :: real) < similarity_threshold example_pipeline \<and>
   retrieve example_services example_pipeline ''pricing'' (Some ''Alpha'') None False =
     Inr [\<lparr>chunk_id = ''c0'', content = ''Security overview'', relevance_score = 1 / 20,
           source_document = [], rc_section = Some ''1 Overview'', page_numbers = []\<rparr>] \<and>
   initial_retrieval example_services example_pipeline ''pricing'' None 20 = Inr []"
  by (simp add: initial_project retrieve_project initial_no_project)
     (simp add: example_pipeline_def)

section \<open>The workflow and its error state\<close>

lemma invoke_unfold:
  "invoke_from co ProcessQuery st =
     (let s1 = process_query co st in
      if route_after_query s1 = ''error'' then handle_error co s1
      else (let s2 = retrieve_documents co s1 in
            if route_after_retrieval s2 = ''error'' then handle_error co s2
            else (let s3 = analyze_content co s2 in
                  if route_after_analysis s3 = ''error'' then handle_error co s3
                  else Inr s3)))"
  by (auto simp: run_node_def next_node_def Let_def split: sum.splits)

lemma handle_error_result:
  "handle_error co st =
     Inr (st\<lparr>st_analysis_response := Some (error_response (st_query st) (error_text (st_error st))),
              st_current_step := ''error_handled''\<rparr>)"
  by (simp add: handle_error_def error_response_def AnalysisResponse_init_def field_required_def
      field_or_def v_str_def v_str_list_def v_confidence_def v_float_def)

text \<open>
  Once a router sends the run to \<open>handle_error\<close>, \<open>run\<close> returns the error
  response: the error message in the reasoning, confidence 0, the fixed note.
\<close>

lemma run_routed_to_error:
  fixes co request
  defines "s1 \<equiv> process_query co (initial_state request)"
  defines "s2 \<equiv> retrieve_documents co s1"
  defines "s3 \<equiv> analyze_content co s2"
  shows "str_truthy (st_error s1) \<Longrightarrow>
           run co request = Inr (error_response (st_query s1) (the (st_error s1)))"
    and "\<not> str_truthy (st_error s1) \<Longrightarrow> str_truthy (st_error s2) \<Longrightarrow>
           run co request = Inr (error_response (st_query s2) (the (st_error s2)))"
    and "\<not> str_truthy (st_error s1) \<Longrightarrow> \<not> str_truthy (st_error s2) \<Longrightarrow>
         str_truthy (st_error s3) \<Longrightarrow>
           run co request = Inr (error_response (st_query s3) (the (st_error s3)))"
  unfolding s1_def s2_def s3_def
  by (auto simp: run_def invoke_unfold Let_def route_after_query_def route_after_retrieval_def
      route_after_analysis_def handle_error_result str_truthy_def error_text_def
      simp del: invoke_from.simps split: option.splits)

lemma failed_step:
  "st_error (failed st (cls, msg)) = Some msg" "st_current_step (failed st (cls, msg)) = ''error''"
  "st_query (failed st (cls, msg)) = st_query st"
  by (simp_all add: failed_def)

lemma analysis_failure_state:
  "st_request st = Some request \<Longrightarrow> analyze co request (st_retrieved_chunks st) = Inl (cls, msg) \<Longrightarrow>
   analyze_content co st = failed st (cls, msg)"
  by (simp add: analyze_content_def)

lemma silent_states:
  "st_current_step (analyze_content silent_failure (retrieve_documents silent_failure
      (process_query silent_failure (initial_state example_request)))) = ''error''"
  "st_error (analyze_content silent_failure (retrieve_documents silent_failure
      (process_query silent_failure (initial_state example_request)))) = Some []"
  by (simp_all add: initial_state_def example_request_def
      silent_failure_def process_query_def retrieve_documents_def analyze_content_def
      str_truthy_def failed_def build_context_def)

text \<open>
  Claim C2. Whenever a step has caught an exception and the workflow is in the error state,
  \<open>run\<close> is meant to return the response of \<open>handle_error\<close> and to raise nothing.
  The routers test \<open>state.error\<close> for truth, and the message of an exception can be the
  empty string: when the analyzer raises such an exception, \<open>analyze_content\<close> sets
  \<open>current_step\<close> to \<open>error\<close> and \<open>error\<close> to the empty string, the router goes
  to \<open>END\<close>, no response is in the final state, and the fallback of \<open>run\<close>, which
  gives \<open>AnalysisResponse\<close> no \<open>query\<close>, raises \<open>ValidationError\<close>.
\<close>

theorem run_raises_on_empty_error_message:
  "st_current_step (analyze_content silent_failure (retrieve_documents silent_failure
      (process_query silent_failure (initial_state example_request)))) = ''error'' \<and>
   st_error (analyze_content silent_failure (retrieve_documents silent_failure
      (process_query silent_failure (initial_state example_request)))) = Some [] \<and>
   run silent_failure example_request = Inl (ValidationError, [])"
proof -
  have "run silent_failure example_request = Inl (ValidationError, [])"
    by (simp add: run_def invoke_unfold Let_def initial_state_def example_request_def
        silent_failure_def process_query_def retrieve_documents_def analyze_content_def
        route_after_query_def route_after_retrieval_def route_after_analysis_def str_truthy_def
        failed_def build_context_def AnalysisResponse_init_def field_required_def field_or_def
        example_library_def v_str_def v_confidence_def v_float_def
        del: invoke_from.simps)
  then show ?thesis by (simp add: silent_states)
qed

end
